theory Spec2Isabelle
  imports Complex_Main "HOL-Library.Multiset"
begin

section \<open>Data model\<close>

text \<open>
  The service keeps one collection of tickets (\<^verbatim>\<open>ticketSchema\<close>, index.js lines 15-38).
  A stored ticket is a record with one field per schema path; \<open>oid\<close> is the document's
  \<^verbatim>\<open>_id\<close>. Dates are their time value (milliseconds since the epoch), the price is the
  exact value of the stored Number, and the two seat counters are integral Numbers, held
  as the integer they denote. The status and the event type are kept as the strings the
  schema stores; a stored ticket need not satisfy the schema's validators, since an
  update stores what it is given.
\<close>

type_synonym objectid = string
type_synonym timestamp = int

record ticket =
  oid :: objectid
  eventName :: string
  eventType :: string
  venue :: string
  date :: timestamp
  time :: string
  price :: rat
  currency :: string
  totalSeats :: int
  availableSeats :: int
  description :: "string option"
  imageUrl :: "string option"
  status :: string
  createdAt :: timestamp
  updatedAt :: timestamp

text \<open>
  The collection is the list of its documents in natural order. A handler answers with a
  ticket (or a list of tickets) or with one of the three failures the handlers send:
  404 \<^verbatim>\<open>Ticket not found\<close>, 400 \<^verbatim>\<open>Not enough seats available\<close>, and the 500 of every
  \<^verbatim>\<open>catch\<close> block.
\<close>

type_synonym collection = "ticket list"

datatype failure = TicketNotFound | NotEnoughSeats | InternalError

datatype mongoose_error = CastError | ValidationError | DocumentNotFoundError | DuplicateKeyError

section \<open>JavaScript values of the request body\<close>

text \<open>
  \<^verbatim>\<open>const { quantity } = req.body\<close> reads whatever the JSON body holds. The model covers
  the field being absent (\<open>Undefined\<close>), \<^verbatim>\<open>null\<close>, a boolean and an integral number;
  strings, arrays, objects and fractional numbers are outside the model. \<open>ToNumber\<close> is
  the conversion that \<^verbatim>\<open><\<close>, \<^verbatim>\<open>-\<close> and (on these values) \<^verbatim>\<open>+\<close> apply to their operands.
\<close>

datatype jsval = Undefined | Null | Boolean bool | Number int

datatype jsnum = NaN | Fin int

fun ToNumber :: "jsval \<Rightarrow> jsnum" where
  "ToNumber Undefined = NaN"
| "ToNumber Null = Fin 0"
| "ToNumber (Boolean b) = Fin (if b then 1 else 0)"
| "ToNumber (Number n) = Fin n"

text \<open>
  A Number is a double. The integral doubles are the integers with at most 53
  significant bits and magnitude below \<open>2^1024\<close>; \<open>Fin n\<close> is the double of value \<open>n\<close>,
  and \<open>Fin infinity\<close> and \<open>Fin (- infinity)\<close> stand for the two infinities (the two
  zeros are not told apart: no operator of the handlers tells them apart). The sum or
  difference of two integral doubles is the exact result rounded to the nearest double,
  a tie going to the even significand, and a magnitude of \<open>2^1024 - 2^970\<close> or more going
  to infinity. \<open>round_magnitude\<close> rounds a magnitude to 53 significant bits,
  \<open>round_double\<close> adds the sign and the overflow, and the doubles are the integers that
  rounding leaves as they are. Every integer of magnitude below \<open>2^53\<close> is a double
  (\<^verbatim>\<open>Number.isSafeInteger\<close>).
\<close>

fun bitlen :: "nat \<Rightarrow> nat" where
  "bitlen n = (if n = 0 then 0 else Suc (bitlen (n div 2)))"

declare bitlen.simps [simp del]

definition round_magnitude :: "nat \<Rightarrow> nat" where
  "round_magnitude n =
     (if n < 2 ^ 53 then n
      else
        let e = bitlen n - 53;
            q = n div 2 ^ e;
            r = n mod 2 ^ e;
            half = 2 ^ (e - 1)
        in (if half < r \<or> (r = half \<and> odd q) then q + 1 else q) * 2 ^ e)"

definition infinity :: int where
  "infinity = 2 ^ 1024"

definition round_double :: "int \<Rightarrow> int" where
  "round_double x =
     (let m = min (int (round_magnitude (nat \<bar>x\<bar>))) infinity
      in if x < 0 then - m else m)"

definition is_double :: "int \<Rightarrow> bool" where
  "is_double x \<longleftrightarrow> round_double x = x"

definition safe_integer :: "int \<Rightarrow> bool" where
  "safe_integer x \<longleftrightarrow> \<bar>x\<bar> < 2 ^ 53"

text \<open>
  The three operators of the handlers. An integer that is not a double stands for no
  Number: no request body and no stored document of the program holds one (a body is
  read by \<^verbatim>\<open>JSON.parse\<close>, whose numbers are doubles, and the sums below are doubles).
  On such an operand the sum is left exact.
\<close>

fun js_lt :: "jsnum \<Rightarrow> jsnum \<Rightarrow> bool" where
  "js_lt (Fin a) (Fin b) = (a < b)"
| "js_lt _ _ = False"

fun js_add :: "jsnum \<Rightarrow> jsnum \<Rightarrow> jsnum" where
  "js_add (Fin a) (Fin b) =
     (if \<not> (is_double a \<and> is_double b) then Fin (a + b)
      else if \<bar>a\<bar> = infinity \<and> \<bar>b\<bar> = infinity then (if a = b then Fin a else NaN)
      else if \<bar>a\<bar> = infinity then Fin a
      else if \<bar>b\<bar> = infinity then Fin b
      else Fin (round_double (a + b)))"
| "js_add _ _ = NaN"

fun js_sub :: "jsnum \<Rightarrow> jsnum \<Rightarrow> jsnum" where
  "js_sub (Fin a) (Fin b) = js_add (Fin a) (Fin (- b))"
| "js_sub _ _ = NaN"

section \<open>The object-document mapper\<close>

text \<open>
  The handlers reach the collection through Mongoose. What the model takes from the
  library:
  \<^item> \<^verbatim>\<open>findById\<close> casts the path parameter to an ObjectId and rejects with a CastError
    when the string is not one; which strings are ObjectIds is the parameter \<open>cast\<close>;
  \<^item> an assignment to a Number path casts the value; \<^verbatim>\<open>NaN\<close> fails the cast, the path
    keeps its value and the document is marked invalid;
  \<^item> \<^verbatim>\<open>save\<close> validates the document: it rejects one that a failed cast has marked
    invalid, and it runs the schema's validators (\<^verbatim>\<open>required\<close>, \<^verbatim>\<open>enum\<close>) on every
    path of the document, the unmodified ones included; otherwise it writes the modified
    paths to the stored document with the same \<^verbatim>\<open>_id\<close> (one \<^verbatim>\<open>updateOne\<close> with
    \<^verbatim>\<open>$set\<close>).
\<close>

record document =
  loaded :: ticket
  current :: ticket
  castError :: bool

definition hydrate :: "ticket \<Rightarrow> document" where
  "hydrate t = \<lparr>loaded = t, current = t, castError = False\<rparr>"

definition findById :: "(string \<Rightarrow> objectid option) \<Rightarrow> collection \<Rightarrow> string
    \<Rightarrow> mongoose_error + ticket option" where
  "findById cast store rid =
     (case cast rid of
        None \<Rightarrow> Inl CastError
      | Some i \<Rightarrow> Inr (find (\<lambda>t. oid t = i) store))"

fun castNumber :: "jsnum \<Rightarrow> int option" where
  "castNumber NaN = None"
| "castNumber (Fin n) = Some n"

definition set_availableSeats :: "jsnum \<Rightarrow> document \<Rightarrow> document" where
  "set_availableSeats v d =
     (case castNumber v of
        None \<Rightarrow> d\<lparr>castError := True\<rparr>
      | Some n \<Rightarrow> d\<lparr>current := (current d)\<lparr>availableSeats := n\<rparr>\<rparr>)"

definition set_status :: "string \<Rightarrow> document \<Rightarrow> document" where
  "set_status s d = d\<lparr>current := (current d)\<lparr>status := s\<rparr>\<rparr>"

definition set_updatedAt :: "timestamp \<Rightarrow> document \<Rightarrow> document" where
  "set_updatedAt now d = d\<lparr>current := (current d)\<lparr>updatedAt := now\<rparr>\<rparr>"

definition write_modified :: "document \<Rightarrow> ticket \<Rightarrow> ticket" where
  "write_modified d r =
     r\<lparr>availableSeats :=
         (if availableSeats (current d) \<noteq> availableSeats (loaded d)
          then availableSeats (current d) else availableSeats r),
       status :=
         (if status (current d) \<noteq> status (loaded d)
          then status (current d) else status r),
       updatedAt :=
         (if updatedAt (current d) \<noteq> updatedAt (loaded d)
          then updatedAt (current d) else updatedAt r)\<rparr>"

fun updateOne :: "objectid \<Rightarrow> (ticket \<Rightarrow> ticket) \<Rightarrow> collection \<Rightarrow> collection" where
  "updateOne i f [] = []"
| "updateOne i f (r # rs) = (if oid r = i then f r # rs else r # updateOne i f rs)"

text \<open>
  The validators of \<^verbatim>\<open>ticketSchema\<close> (index.js lines 15-38) on a document: the required
  strings are not empty (the other required paths always hold a value here), and the
  event type and the status are members of their \<^verbatim>\<open>enum\<close>.
\<close>

definition eventTypes :: "string list" where
  "eventTypes = [''movie'', ''concert'', ''sports'', ''theater'', ''conference'', ''other'']"

definition statuses :: "string list" where
  "statuses = [''active'', ''sold-out'', ''cancelled'', ''completed'']"

definition validate_document :: "ticket \<Rightarrow> bool" where
  "validate_document t \<longleftrightarrow>
     eventName t \<noteq> [] \<and>
     eventType t \<noteq> [] \<and> eventType t \<in> set eventTypes \<and>
     venue t \<noteq> [] \<and>
     time t \<noteq> [] \<and>
     status t \<in> set statuses"

definition save :: "collection \<Rightarrow> document \<Rightarrow> mongoose_error + collection" where
  "save store d =
     (if castError d \<or> \<not> validate_document (current d) then Inl ValidationError
      else if find (\<lambda>t. oid t = oid (current d)) store = None then Inl DocumentNotFoundError
      else Inr (updateOne (oid (current d)) (write_modified d) store))"

section \<open>Reserve and release\<close>

text \<open>
  Each handler awaits twice: the read (\<^verbatim>\<open>await Ticket.findById\<close>) and the write
  (\<^verbatim>\<open>await ticket.save()\<close>). \<open>reserve_begin\<close> is the handler up to the second await: it
  has either answered already or holds the document it is about to save. \<open>finish\<close> is
  the save and the answer that follows it. \<open>now\<close> is the value of \<^verbatim>\<open>new Date()\<close>.
\<close>

datatype progress = Responded "failure + ticket" | Saving document

definition reserve_begin :: "(string \<Rightarrow> objectid option) \<Rightarrow> timestamp \<Rightarrow> collection
    \<Rightarrow> string \<Rightarrow> jsval \<Rightarrow> progress" where
  "reserve_begin cast now store rid quantity =
     (case findById cast store rid of
        Inl e \<Rightarrow> Responded (Inl InternalError)
      | Inr None \<Rightarrow> Responded (Inl TicketNotFound)
      | Inr (Some t) \<Rightarrow>
          if js_lt (Fin (availableSeats t)) (ToNumber quantity)
          then Responded (Inl NotEnoughSeats)
          else
            let d1 = set_availableSeats
                       (js_sub (Fin (availableSeats t)) (ToNumber quantity)) (hydrate t);
                d2 = (if availableSeats (current d1) = 0 then set_status ''sold-out'' d1 else d1);
                d3 = set_updatedAt now d2
            in Saving d3)"

definition release_begin :: "(string \<Rightarrow> objectid option) \<Rightarrow> timestamp \<Rightarrow> collection
    \<Rightarrow> string \<Rightarrow> jsval \<Rightarrow> progress" where
  "release_begin cast now store rid quantity =
     (case findById cast store rid of
        Inl e \<Rightarrow> Responded (Inl InternalError)
      | Inr None \<Rightarrow> Responded (Inl TicketNotFound)
      | Inr (Some t) \<Rightarrow>
          let d1 = set_availableSeats
                     (js_add (Fin (availableSeats t)) (ToNumber quantity)) (hydrate t);
              d2 = (if 0 < availableSeats (current d1) \<and> status (current d1) = ''sold-out''
                    then set_status ''active'' d1 else d1);
              d3 = set_updatedAt now d2
          in Saving d3)"

definition finish :: "collection \<Rightarrow> progress \<Rightarrow> (failure + ticket) \<times> collection" where
  "finish store p =
     (case p of
        Responded r \<Rightarrow> (r, store)
      | Saving d \<Rightarrow>
          (case save store d of
             Inl e \<Rightarrow> (Inl InternalError, store)
           | Inr store' \<Rightarrow> (Inr (current d), store')))"

definition reserve :: "(string \<Rightarrow> objectid option) \<Rightarrow> timestamp \<Rightarrow> collection
    \<Rightarrow> string \<Rightarrow> jsval \<Rightarrow> (failure + ticket) \<times> collection" where
  "reserve cast now store rid quantity =
     finish store (reserve_begin cast now store rid quantity)"

definition release :: "(string \<Rightarrow> objectid option) \<Rightarrow> timestamp \<Rightarrow> collection
    \<Rightarrow> string \<Rightarrow> jsval \<Rightarrow> (failure + ticket) \<times> collection" where
  "release cast now store rid quantity =
     finish store (release_begin cast now store rid quantity)"

section \<open>Get\<close>

definition get_ticket :: "(string \<Rightarrow> objectid option) \<Rightarrow> collection \<Rightarrow> string
    \<Rightarrow> failure + ticket" where
  "get_ticket cast store rid =
     (case findById cast store rid of
        Inl e \<Rightarrow> Inl InternalError
      | Inr None \<Rightarrow> Inl TicketNotFound
      | Inr (Some t) \<Rightarrow> Inr t)"

section \<open>Create and update\<close>

text \<open>
  A request body, after the schema's casts: each schema path is absent or holds a value
  of the path's type. \<open>create_ticket\<close> is \<^verbatim>\<open>new Ticket(req.body)\<close> followed by
  \<^verbatim>\<open>save()\<close>: the schema's defaults, its \<^verbatim>\<open>required\<close> and \<^verbatim>\<open>enum\<close> validators, then the
  insert (which a duplicate \<^verbatim>\<open>_id\<close> fails). \<open>new_id\<close> is the ObjectId the constructor
  generates. \<open>update_ticket\<close> is \<^verbatim>\<open>findByIdAndUpdate\<close>, which sets the supplied paths
  on the stored document and runs no validator.
\<close>

record ticket_body =
  b_eventName :: "string option"
  b_eventType :: "string option"
  b_venue :: "string option"
  b_date :: "timestamp option"
  b_time :: "string option"
  b_price :: "rat option"
  b_currency :: "string option"
  b_totalSeats :: "int option"
  b_availableSeats :: "int option"
  b_description :: "string option"
  b_imageUrl :: "string option"
  b_status :: "string option"
  b_createdAt :: "timestamp option"
  b_updatedAt :: "timestamp option"

definition required_string :: "string option \<Rightarrow> bool" where
  "required_string v = (case v of None \<Rightarrow> False | Some s \<Rightarrow> s \<noteq> [])"

definition validate :: "ticket_body \<Rightarrow> bool" where
  "validate b \<longleftrightarrow>
     required_string (b_eventName b) \<and>
     required_string (b_eventType b) \<and>
     (case b_eventType b of None \<Rightarrow> True | Some e \<Rightarrow> e \<in> set eventTypes) \<and>
     required_string (b_venue b) \<and>
     b_date b \<noteq> None \<and>
     required_string (b_time b) \<and>
     b_price b \<noteq> None \<and>
     b_totalSeats b \<noteq> None \<and>
     b_availableSeats b \<noteq> None \<and>
     (case b_status b of None \<Rightarrow> True | Some s \<Rightarrow> s \<in> set statuses)"

definition or_default :: "'a option \<Rightarrow> 'a \<Rightarrow> 'a" where
  "or_default v d = (case v of None \<Rightarrow> d | Some x \<Rightarrow> x)"

definition new_Ticket :: "objectid \<Rightarrow> timestamp \<Rightarrow> ticket_body \<Rightarrow> ticket" where
  "new_Ticket new_id now b =
     \<lparr>oid = new_id,
      eventName = or_default (b_eventName b) [],
      eventType = or_default (b_eventType b) [],
      venue = or_default (b_venue b) [],
      date = or_default (b_date b) 0,
      time = or_default (b_time b) [],
      price = or_default (b_price b) 0,
      currency = or_default (b_currency b) ''USD'',
      totalSeats = or_default (b_totalSeats b) 0,
      availableSeats = or_default (b_availableSeats b) 0,
      description = b_description b,
      imageUrl = b_imageUrl b,
      status = or_default (b_status b) ''active'',
      createdAt = or_default (b_createdAt b) now,
      updatedAt = or_default (b_updatedAt b) now\<rparr>"

definition insertOne :: "collection \<Rightarrow> ticket \<Rightarrow> mongoose_error + collection" where
  "insertOne store t =
     (if find (\<lambda>r. oid r = oid t) store \<noteq> None then Inl DuplicateKeyError
      else Inr (store @ [t]))"

definition create_ticket :: "objectid \<Rightarrow> timestamp \<Rightarrow> collection \<Rightarrow> ticket_body
    \<Rightarrow> (failure + ticket) \<times> collection" where
  "create_ticket new_id now store body =
     (if \<not> validate body then (Inl InternalError, store)
      else
        (case insertOne store (new_Ticket new_id now body) of
           Inl e \<Rightarrow> (Inl InternalError, store)
         | Inr store' \<Rightarrow> (Inr (new_Ticket new_id now body), store')))"

definition apply_update :: "ticket_body \<Rightarrow> ticket \<Rightarrow> ticket" where
  "apply_update b t =
     t\<lparr>eventName := or_default (b_eventName b) (eventName t),
       eventType := or_default (b_eventType b) (eventType t),
       venue := or_default (b_venue b) (venue t),
       date := or_default (b_date b) (date t),
       time := or_default (b_time b) (time t),
       price := or_default (b_price b) (price t),
       currency := or_default (b_currency b) (currency t),
       totalSeats := or_default (b_totalSeats b) (totalSeats t),
       availableSeats := or_default (b_availableSeats b) (availableSeats t),
       description := (case b_description b of None \<Rightarrow> description t | Some v \<Rightarrow> Some v),
       imageUrl := (case b_imageUrl b of None \<Rightarrow> imageUrl t | Some v \<Rightarrow> Some v),
       status := or_default (b_status b) (status t),
       createdAt := or_default (b_createdAt b) (createdAt t),
       updatedAt := or_default (b_updatedAt b) (updatedAt t)\<rparr>"

definition findByIdAndUpdate :: "(string \<Rightarrow> objectid option) \<Rightarrow> collection \<Rightarrow> string
    \<Rightarrow> ticket_body \<Rightarrow> mongoose_error + (ticket option \<times> collection)" where
  "findByIdAndUpdate cast store rid b =
     (case cast rid of
        None \<Rightarrow> Inl CastError
      | Some i \<Rightarrow>
          (case find (\<lambda>t. oid t = i) store of
             None \<Rightarrow> Inr (None, store)
           | Some t \<Rightarrow> Inr (Some (apply_update b t), updateOne i (apply_update b) store)))"

definition update_ticket :: "(string \<Rightarrow> objectid option) \<Rightarrow> timestamp \<Rightarrow> collection
    \<Rightarrow> string \<Rightarrow> ticket_body \<Rightarrow> (failure + ticket) \<times> collection" where
  "update_ticket cast now store rid body =
     (case findByIdAndUpdate cast store rid (body\<lparr>b_updatedAt := Some now\<rparr>) of
        Inl e \<Rightarrow> (Inl InternalError, store)
      | Inr (None, store') \<Rightarrow> (Inl TicketNotFound, store')
      | Inr (Some t, store') \<Rightarrow> (Inr t, store'))"

section \<open>List\<close>

text \<open>
  The query string gives each parameter as a string or not at all; an empty string is
  falsy and is treated as absent. \<^verbatim>\<open>parseFloat\<close> and the date parser of \<^verbatim>\<open>new Date(date)\<close>
  are parameters: \<open>None\<close> is \<^verbatim>\<open>NaN\<close>, respectively an invalid Date. The filter is the
  object the handler builds; \<^verbatim>\<open>Ticket.find\<close> casts it (a \<^verbatim>\<open>NaN\<close> bound or an invalid
  Date is a CastError) and \<^verbatim>\<open>sort({ date: 1 })\<close> orders the matching documents.
\<close>

record query =
  q_eventType :: "string option"
  q_status :: "string option"
  q_minPrice :: "string option"
  q_maxPrice :: "string option"
  q_date :: "string option"

record price_cond =
  p_gte :: "rat option option"
  p_lte :: "rat option option"

record date_cond =
  d_gte :: "timestamp option"
  d_lt :: "timestamp option"

record filter_doc =
  f_eventType :: "string option"
  f_status :: "string option"
  f_price :: "price_cond option"
  f_date :: "date_cond option"

definition truthy :: "string option \<Rightarrow> bool" where
  "truthy v = (case v of None \<Rightarrow> False | Some s \<Rightarrow> s \<noteq> [])"

definition new_Date :: "int option \<Rightarrow> timestamp option" where
  "new_Date v =
     (case v of
        None \<Rightarrow> None
      | Some n \<Rightarrow> if \<bar>n\<bar> \<le> 8640000000000000 then Some n else None)"

definition build_filter :: "(string \<Rightarrow> rat option) \<Rightarrow> (string \<Rightarrow> timestamp option)
    \<Rightarrow> query \<Rightarrow> filter_doc" where
  "build_filter parseFloat parseDate q =
     \<lparr>f_eventType = (if truthy (q_eventType q) then q_eventType q else None),
      f_status = (if truthy (q_status q) then q_status q else None),
      f_price =
        (if truthy (q_minPrice q) \<or> truthy (q_maxPrice q)
         then Some \<lparr>p_gte = (if truthy (q_minPrice q)
                              then map_option parseFloat (q_minPrice q) else None),
                    p_lte = (if truthy (q_maxPrice q)
                              then map_option parseFloat (q_maxPrice q) else None)\<rparr>
         else None),
      f_date =
        (if truthy (q_date q)
         then (let searchDate = Option.bind (q_date q) parseDate
               in Some \<lparr>d_gte = searchDate,
                         d_lt = new_Date (map_option (\<lambda>n. n + 24 * 60 * 60 * 1000)
                                            searchDate)\<rparr>)
         else None)\<rparr>"

definition cast_filter :: "filter_doc \<Rightarrow> bool" where
  "cast_filter f \<longleftrightarrow>
     (case f_price f of
        None \<Rightarrow> True
      | Some pc \<Rightarrow> p_gte pc \<noteq> Some None \<and> p_lte pc \<noteq> Some None) \<and>
     (case f_date f of
        None \<Rightarrow> True
      | Some dc \<Rightarrow> d_gte dc \<noteq> None \<and> d_lt dc \<noteq> None)"

definition matches :: "filter_doc \<Rightarrow> ticket \<Rightarrow> bool" where
  "matches f t \<longleftrightarrow>
     (case f_eventType f of None \<Rightarrow> True | Some e \<Rightarrow> eventType t = e) \<and>
     (case f_status f of None \<Rightarrow> True | Some s \<Rightarrow> status t = s) \<and>
     (case f_price f of
        None \<Rightarrow> True
      | Some pc \<Rightarrow>
          (case p_gte pc of Some (Some lo) \<Rightarrow> lo \<le> price t | _ \<Rightarrow> True) \<and>
          (case p_lte pc of Some (Some hi) \<Rightarrow> price t \<le> hi | _ \<Rightarrow> True)) \<and>
     (case f_date f of
        None \<Rightarrow> True
      | Some dc \<Rightarrow>
          (case d_gte dc of Some a \<Rightarrow> a \<le> date t | None \<Rightarrow> True) \<and>
          (case d_lt dc of Some b \<Rightarrow> date t < b | None \<Rightarrow> True))"

definition find_sorted :: "filter_doc \<Rightarrow> collection \<Rightarrow> mongoose_error + ticket list" where
  "find_sorted f store =
     (if cast_filter f then Inr (sort_key date (filter (matches f) store))
      else Inl CastError)"

definition list_tickets :: "(string \<Rightarrow> rat option) \<Rightarrow> (string \<Rightarrow> timestamp option)
    \<Rightarrow> collection \<Rightarrow> query \<Rightarrow> failure + ticket list" where
  "list_tickets parseFloat parseDate store q =
     (case find_sorted (build_filter parseFloat parseDate q) store of
        Inl e \<Rightarrow> Inl InternalError
      | Inr tickets \<Rightarrow> Inr tickets)"

text \<open>
  The filter as the specification words it: an exact event type, an exact status,
  inclusive price bounds and a calendar day (a day number, days since the epoch in UTC),
  each optional.
\<close>

definition spec_matches :: "string option \<Rightarrow> string option \<Rightarrow> rat option \<Rightarrow> rat option
    \<Rightarrow> int option \<Rightarrow> ticket \<Rightarrow> bool" where
  "spec_matches ety st lo hi day t \<longleftrightarrow>
     (case ety of None \<Rightarrow> True | Some e \<Rightarrow> eventType t = e) \<and>
     (case st of None \<Rightarrow> True | Some s \<Rightarrow> status t = s) \<and>
     (case lo of None \<Rightarrow> True | Some l \<Rightarrow> l \<le> price t) \<and>
     (case hi of None \<Rightarrow> True | Some h \<Rightarrow> price t \<le> h) \<and>
     (case day of None \<Rightarrow> True | Some d \<Rightarrow> date t div 86400000 = d)"

definition supplied :: "string option \<Rightarrow> string option" where
  "supplied v = (if truthy v then v else None)"

section \<open>Interleaved and repeated reservations\<close>

text \<open>
  Requests are handled concurrently: a handler runs until it awaits, and another
  handler may run before it resumes. A reserve request is therefore a task that takes
  two steps against the shared collection, the read (up to \<^verbatim>\<open>await ticket.save()\<close>) and
  the write; a schedule names, step by step, the task that runs next.
\<close>

record reserve_call =
  call_id :: string
  call_quantity :: jsval
  call_now :: timestamp

datatype task = Waiting | Loaded document | Completed "failure + ticket"

definition reserve_step :: "(string \<Rightarrow> objectid option) \<Rightarrow> reserve_call \<Rightarrow> task
    \<Rightarrow> collection \<Rightarrow> task \<times> collection" where
  "reserve_step cast c s store =
     (case s of
        Waiting \<Rightarrow>
          (case reserve_begin cast (call_now c) store (call_id c) (call_quantity c) of
             Responded r \<Rightarrow> (Completed r, store)
           | Saving d \<Rightarrow> (Loaded d, store))
      | Loaded d \<Rightarrow>
          (case finish store (Saving d) of (r, store') \<Rightarrow> (Completed r, store'))
      | Completed r \<Rightarrow> (Completed r, store))"

fun run_schedule :: "(string \<Rightarrow> objectid option) \<Rightarrow> reserve_call list \<Rightarrow> nat list
    \<Rightarrow> task list \<times> collection \<Rightarrow> task list \<times> collection" where
  "run_schedule cast calls [] cfg = cfg"
| "run_schedule cast calls (k # ks) (tasks, store) =
     (if k < length tasks \<and> k < length calls
      then (case reserve_step cast (calls ! k) (tasks ! k) store of
              (s, store') \<Rightarrow> run_schedule cast calls ks (tasks[k := s], store'))
      else run_schedule cast calls ks (tasks, store))"

fun succeeded :: "task \<Rightarrow> bool" where
  "succeeded (Completed (Inr t)) = True"
| "succeeded _ = False"

text \<open>The same requests one after the other, each finished before the next starts.\<close>

fun reserve_all :: "(string \<Rightarrow> objectid option) \<Rightarrow> timestamp list \<Rightarrow> collection
    \<Rightarrow> string \<Rightarrow> jsval \<Rightarrow> (failure + ticket) list \<times> collection" where
  "reserve_all cast [] store rid quantity = ([], store)"
| "reserve_all cast (now # nows) store rid quantity =
     (case reserve cast now store rid quantity of
        (r, store') \<Rightarrow>
          (case reserve_all cast nows store' rid quantity of
             (rs, store'') \<Rightarrow> (r # rs, store'')))"

section \<open>Sequences of operations\<close>

datatype request =
    Create objectid ticket_body
  | Update string ticket_body
  | Reserve string jsval
  | Release string jsval

definition handle :: "(string \<Rightarrow> objectid option) \<Rightarrow> timestamp \<Rightarrow> collection \<Rightarrow> request
    \<Rightarrow> collection" where
  "handle cast now store req =
     (case req of
        Create new_id body \<Rightarrow> snd (create_ticket new_id now store body)
      | Update rid body \<Rightarrow> snd (update_ticket cast now store rid body)
      | Reserve rid quantity \<Rightarrow> snd (reserve cast now store rid quantity)
      | Release rid quantity \<Rightarrow> snd (release cast now store rid quantity))"

fun run_requests :: "(string \<Rightarrow> objectid option) \<Rightarrow> collection
    \<Rightarrow> (timestamp \<times> request) list \<Rightarrow> collection" where
  "run_requests cast store [] = store"
| "run_requests cast store ((now, req) # rest) =
     run_requests cast (handle cast now store req) rest"

definition seats_in_range :: "ticket \<Rightarrow> bool" where
  "seats_in_range t \<longleftrightarrow> 0 \<le> availableSeats t \<and> availableSeats t \<le> totalSeats t"

text \<open>
  An operation uses valid quantities within bounds when: a created record supplies
  \<open>0 \<le> availableSeats \<le> totalSeats\<close> with a total that is a safe integer; an update
  supplies seat counts that are in range with each other, or in range with the stored
  count it does not supply, and a total that is a safe integer; a reserved quantity is a
  positive integer; a released quantity is a positive integer no larger than the seats
  currently taken.
\<close>

definition in_bounds :: "(string \<Rightarrow> objectid option) \<Rightarrow> collection \<Rightarrow> request \<Rightarrow> bool" where
  "in_bounds cast store req =
     (case req of
        Create new_id body \<Rightarrow>
          (case (b_totalSeats body, b_availableSeats body) of
             (Some seats, Some avail) \<Rightarrow> 0 \<le> avail \<and> avail \<le> seats \<and> safe_integer seats
           | _ \<Rightarrow> True)
      | Update rid body \<Rightarrow>
          (case findById cast store rid of
             Inr (Some t) \<Rightarrow>
               (case (b_totalSeats body, b_availableSeats body) of
                  (None, None) \<Rightarrow> True
                | (Some seats, None) \<Rightarrow> availableSeats t \<le> seats \<and> safe_integer seats
                | (None, Some avail) \<Rightarrow> 0 \<le> avail \<and> avail \<le> totalSeats t
                | (Some seats, Some avail) \<Rightarrow>
                    0 \<le> avail \<and> avail \<le> seats \<and> safe_integer seats)
           | _ \<Rightarrow> True)
      | Reserve rid quantity \<Rightarrow>
          (case quantity of Number n \<Rightarrow> 1 \<le> n | _ \<Rightarrow> False)
      | Release rid quantity \<Rightarrow>
          (case quantity of
             Number n \<Rightarrow>
               1 \<le> n \<and>
               (case findById cast store rid of
                  Inr (Some t) \<Rightarrow> n \<le> totalSeats t - availableSeats t
                | _ \<Rightarrow> True)
           | _ \<Rightarrow> False))"

fun all_in_bounds :: "(string \<Rightarrow> objectid option) \<Rightarrow> collection
    \<Rightarrow> (timestamp \<times> request) list \<Rightarrow> bool" where
  "all_in_bounds cast store [] = True"
| "all_in_bounds cast store ((now, req) # rest) =
     (in_bounds cast store req \<and> all_in_bounds cast (handle cast now store req) rest)"

section \<open>Sample data\<close>

text \<open>
  An ObjectId cast for concrete runs: the 24-digit hexadecimal form, read without
  regard to case. The two tickets are the first two of \<^verbatim>\<open>sampleTickets\<close> (index.js lines
  59-82), with identifiers and creation times filled in.
\<close>

definition lowerHex :: "char \<Rightarrow> char" where
  "lowerHex c =
     (if c = CHR ''A'' then CHR ''a'' else if c = CHR ''B'' then CHR ''b''
      else if c = CHR ''C'' then CHR ''c'' else if c = CHR ''D'' then CHR ''d''
      else if c = CHR ''E'' then CHR ''e'' else if c = CHR ''F'' then CHR ''f'' else c)"

definition hexObjectId :: "string \<Rightarrow> objectid option" where
  "hexObjectId s =
     (if length s = 24 \<and> list_all (\<lambda>c. c \<in> set ''0123456789abcdefABCDEF'') s
      then Some (map lowerHex s) else None)"

definition rockConcert :: ticket where
  "rockConcert =
     \<lparr>oid = ''656f00000000000000000001'', eventName = ''Rock Concert 2024'',
      eventType = ''concert'', venue = ''Madison Square Garden'', date = 1734220800000,
      time = ''20:00'', price = 85, currency = ''USD'', totalSeats = 500,
      availableSeats = 500,
      description = Some ''An amazing rock concert featuring top bands'',
      imageUrl = Some ''/images/concert.jpg'', status = ''active'',
      createdAt = 1700000000000, updatedAt = 1700000000000\<rparr>"

definition moviePremiere :: ticket where
  "moviePremiere =
     \<lparr>oid = ''656f00000000000000000002'', eventName = ''BlockBuster Movie Premiere'',
      eventType = ''movie'', venue = ''AMC Theater'', date = 1732924800000,
      time = ''19:30'', price = 25, currency = ''USD'', totalSeats = 200,
      availableSeats = 200,
      description = Some ''Exclusive premiere of the year's most anticipated movie'',
      imageUrl = Some ''/images/movie.jpg'', status = ''active'',
      createdAt = 1700000000000, updatedAt = 1700000000000\<rparr>"

text \<open>
  Request bodies: the empty object, and the second entry of \<^verbatim>\<open>sampleTickets\<close> as the
  seed passes it to the model constructor.
\<close>

definition emptyBody :: ticket_body where
  "emptyBody =
     \<lparr>b_eventName = None, b_eventType = None, b_venue = None, b_date = None,
      b_time = None, b_price = None, b_currency = None, b_totalSeats = None,
      b_availableSeats = None, b_description = None, b_imageUrl = None,
      b_status = None, b_createdAt = None, b_updatedAt = None\<rparr>"

definition movieBody :: ticket_body where
  "movieBody =
     \<lparr>b_eventName = Some ''BlockBuster Movie Premiere'', b_eventType = Some ''movie'',
      b_venue = Some ''AMC Theater'', b_date = Some 1732924800000,
      b_time = Some ''19:30'', b_price = Some 25, b_currency = None,
      b_totalSeats = Some 200, b_availableSeats = Some 200,
      b_description = Some ''Exclusive premiere of the year's most anticipated movie'',
      b_imageUrl = Some ''/images/movie.jpg'',
      b_status = None, b_createdAt = None, b_updatedAt = None\<rparr>"

section \<open>Lookups and single-document updates\<close>

lemma find_oid_Some: "find (\<lambda>t. oid t = i) store = Some t \<Longrightarrow> oid t = i \<and> t \<in> set store"
  by (induction store) (auto split: if_splits)

lemma find_oid_None: "find (\<lambda>t. oid t = i) store = None \<longleftrightarrow> (\<forall>t\<in>set store. oid t \<noteq> i)"
  by (induction store) auto

lemma updateOne_found:
  "find (\<lambda>t. oid t = i) store = Some t \<Longrightarrow> updateOne i f store = updateOne i (\<lambda>_. f t) store"
  by (induction store) auto

lemma find_updateOne:
  "oid (f t) = i \<Longrightarrow> find (\<lambda>t. oid t = i) store = Some t
     \<Longrightarrow> find (\<lambda>t. oid t = i) (updateOne i f store) = Some (f t)"
  by (induction store) auto

lemma set_updateOne:
  "find (\<lambda>t. oid t = i) store = Some t \<Longrightarrow> set (updateOne i f store) \<subseteq> insert (f t) (set store)"
  by (induction store) auto

section \<open>Arithmetic on safe integers\<close>

lemma safe_below_infinity: "safe_integer x \<Longrightarrow> \<bar>x\<bar> < infinity"
proof -
  have "(2::int) ^ 53 \<le> 2 ^ 1024" by (rule power_increasing) simp_all
  then show "safe_integer x \<Longrightarrow> \<bar>x\<bar> < infinity"
    unfolding safe_integer_def infinity_def by linarith
qed

lemma round_double_safe: "safe_integer x \<Longrightarrow> round_double x = x"
proof -
  assume s: "safe_integer x"
  then have n: "nat \<bar>x\<bar> < 2 ^ 53"
    unfolding safe_integer_def by (simp add: nat_less_iff)
  have "min \<bar>x\<bar> infinity = \<bar>x\<bar>" using safe_below_infinity[OF s] by simp
  with n show ?thesis by (simp add: round_double_def round_magnitude_def Let_def)
qed

lemma is_double_safe: "safe_integer x \<Longrightarrow> is_double x"
  by (simp add: is_double_def round_double_safe)

lemma js_add_safe:
  assumes "safe_integer a" and "safe_integer b" and "safe_integer (a + b)"
  shows "js_add (Fin a) (Fin b) = Fin (a + b)"
  using assms safe_below_infinity[of a] safe_below_infinity[of b]
  by (simp add: round_double_safe)

lemma js_sub_safe:
  assumes "safe_integer a" and "safe_integer b" and "safe_integer (a - b)"
  shows "js_sub (Fin a) (Fin b) = Fin (a - b)"
proof -
  have "safe_integer (- b)" using assms(2) by (simp add: safe_integer_def)
  from js_add_safe[OF assms(1) this] assms(3) show ?thesis by simp
qed

lemma js_add_zero: "js_add (Fin 0) (Fin q) = Fin q"
proof -
  have z: "safe_integer 0" by (simp add: safe_integer_def)
  have "\<bar>0::int\<bar> \<noteq> infinity" using safe_below_infinity[OF z] by simp
  then show ?thesis by (auto simp add: is_double_def)
qed

section \<open>What the two seat handlers compute\<close>

lemma reserve_lt:
  assumes "cast rid = Some i" and "find (\<lambda>t. oid t = i) store = Some t"
    and "js_lt (Fin (availableSeats t)) (ToNumber quantity)"
  shows "reserve cast now store rid quantity = (Inl NotEnoughSeats, store)"
  using assms by (simp add: reserve_def reserve_begin_def finish_def findById_def)

lemma reserve_NaN:
  assumes "cast rid = Some i" and "find (\<lambda>t. oid t = i) store = Some t"
    and "\<not> js_lt (Fin (availableSeats t)) (ToNumber quantity)"
    and "js_sub (Fin (availableSeats t)) (ToNumber quantity) = NaN"
  shows "reserve cast now store rid quantity = (Inl InternalError, store)"
  using assms
  by (simp add: reserve_def reserve_begin_def finish_def findById_def save_def hydrate_def
      set_availableSeats_def set_status_def set_updatedAt_def Let_def)

lemma reserve_Fin:
  assumes "cast rid = Some i" and "find (\<lambda>t. oid t = i) store = Some t"
    and "\<not> js_lt (Fin (availableSeats t)) (ToNumber quantity)"
    and "js_sub (Fin (availableSeats t)) (ToNumber quantity) = Fin n"
  shows "reserve cast now store rid quantity =
     (if validate_document
           (t\<lparr>availableSeats := n,
              status := (if n = 0 then ''sold-out'' else status t), updatedAt := now\<rparr>)
      then (Inr (t\<lparr>availableSeats := n,
                   status := (if n = 0 then ''sold-out'' else status t), updatedAt := now\<rparr>),
            updateOne i (\<lambda>_. t\<lparr>availableSeats := n,
                   status := (if n = 0 then ''sold-out'' else status t),
                   updatedAt := now\<rparr>) store)
      else (Inl InternalError, store))"
proof -
  have o: "oid t = i" using find_oid_Some[OF assms(2)] by simp
  show ?thesis
    using assms o
    by (simp add: reserve_def reserve_begin_def finish_def findById_def save_def hydrate_def
        set_availableSeats_def set_status_def set_updatedAt_def Let_def write_modified_def
        updateOne_found[OF assms(2), of "write_modified d" for d])
qed

lemma release_NaN:
  assumes "cast rid = Some i" and "find (\<lambda>t. oid t = i) store = Some t"
    and "js_add (Fin (availableSeats t)) (ToNumber quantity) = NaN"
  shows "release cast now store rid quantity = (Inl InternalError, store)"
  using assms
  by (simp add: release_def release_begin_def finish_def findById_def save_def hydrate_def
      set_availableSeats_def set_status_def set_updatedAt_def Let_def)

lemma release_Fin:
  assumes "cast rid = Some i" and "find (\<lambda>t. oid t = i) store = Some t"
    and "js_add (Fin (availableSeats t)) (ToNumber quantity) = Fin n"
  shows "release cast now store rid quantity =
     (if validate_document
           (t\<lparr>availableSeats := n,
              status := (if 0 < n \<and> status t = ''sold-out'' then ''active'' else status t),
              updatedAt := now\<rparr>)
      then (Inr (t\<lparr>availableSeats := n,
              status := (if 0 < n \<and> status t = ''sold-out'' then ''active'' else status t),
              updatedAt := now\<rparr>),
            updateOne i (\<lambda>_. t\<lparr>availableSeats := n,
              status := (if 0 < n \<and> status t = ''sold-out'' then ''active'' else status t),
              updatedAt := now\<rparr>) store)
      else (Inl InternalError, store))"
proof -
  have o: "oid t = i" using find_oid_Some[OF assms(2)] by simp
  show ?thesis
    using assms o
    by (simp add: release_def release_begin_def finish_def findById_def save_def hydrate_def
        set_availableSeats_def set_status_def set_updatedAt_def Let_def write_modified_def
        updateOne_found[OF assms(2), of "write_modified d" for d])
qed

lemma validate_new_Ticket:
  "validate body \<Longrightarrow> validate_document (new_Ticket new_id now body)"
  by (auto simp add: validate_def validate_document_def new_Ticket_def or_default_def
      required_string_def statuses_def split: option.splits)

lemma hexObjectId_sample:
  "hexObjectId ''656f00000000000000000001'' = Some ''656f00000000000000000001''"
  by (simp add: hexObjectId_def lowerHex_def)

lemma find_rockConcert:
  "find (\<lambda>t. oid t = ''656f00000000000000000001'') [rockConcert] = Some rockConcert"
  by (simp add: rockConcert_def)

lemma validate_rockConcert: "validate_document rockConcert"
  by (simp add: validate_document_def rockConcert_def eventTypes_def statuses_def)

lemma reserve_exact:
  assumes "cast rid = Some i" and "find (\<lambda>t. oid t = i) store = Some t"
    and "ToNumber quantity = Fin q" and "\<not> availableSeats t < q"
    and "validate_document t"
    and "safe_integer (availableSeats t)" and "safe_integer q"
    and "safe_integer (availableSeats t - q)"
  shows "reserve cast now store rid quantity =
     (Inr (t\<lparr>availableSeats := availableSeats t - q,
             status := (if availableSeats t - q = 0 then ''sold-out'' else status t),
             updatedAt := now\<rparr>),
      updateOne i (\<lambda>_. t\<lparr>availableSeats := availableSeats t - q,
             status := (if availableSeats t - q = 0 then ''sold-out'' else status t),
             updatedAt := now\<rparr>) store)"
proof -
  have lt: "\<not> js_lt (Fin (availableSeats t)) (ToNumber quantity)"
    using assms(3,4) by simp
  have sub: "js_sub (Fin (availableSeats t)) (ToNumber quantity) = Fin (availableSeats t - q)"
    using assms(3) js_sub_safe[OF assms(6,7,8)] by simp
  have v: "validate_document
             (t\<lparr>availableSeats := availableSeats t - q,
                status := (if availableSeats t - q = 0 then ''sold-out'' else status t),
                updatedAt := now\<rparr>)"
    using assms(5) by (simp add: validate_document_def statuses_def)
  show ?thesis
    using reserve_Fin[where cast = cast and rid = rid, OF assms(1,2) lt sub, of now] v
    by simp
qed

lemma release_exact:
  assumes "cast rid = Some i" and "find (\<lambda>t. oid t = i) store = Some t"
    and "ToNumber quantity = Fin q"
    and "validate_document t"
    and "safe_integer (availableSeats t)" and "safe_integer q"
    and "safe_integer (availableSeats t + q)"
  shows "release cast now store rid quantity =
     (Inr (t\<lparr>availableSeats := availableSeats t + q,
              status := (if 0 < availableSeats t + q \<and> status t = ''sold-out''
                         then ''active'' else status t),
              updatedAt := now\<rparr>),
      updateOne i (\<lambda>_. t\<lparr>availableSeats := availableSeats t + q,
              status := (if 0 < availableSeats t + q \<and> status t = ''sold-out''
                         then ''active'' else status t),
              updatedAt := now\<rparr>) store)"
proof -
  have add: "js_add (Fin (availableSeats t)) (ToNumber quantity) = Fin (availableSeats t + q)"
    using assms(3) js_add_safe[OF assms(5,6,7)] by simp
  have v: "validate_document
             (t\<lparr>availableSeats := availableSeats t + q,
              status := (if 0 < availableSeats t + q \<and> status t = ''sold-out''
                         then ''active'' else status t),
              updatedAt := now\<rparr>)"
    using assms(4) by (simp add: validate_document_def statuses_def)
  show ?thesis
    using release_Fin[where cast = cast and rid = rid, OF assms(1,2) add, of now] v
    by simp
qed

section \<open>Reserve beyond the available seats\<close>

text \<open>
  Claim C4. For an existing ticket and a quantity strictly greater than its
  \<open>availableSeats\<close>, Reserve answers 400 (not enough seats) and the collection is the
  one it started from: no field of any stored record, \<open>updatedAt\<close> included, changes.
\<close>

theorem reserve_insufficient_unchanged:
  assumes "cast rid = Some i" and "find (\<lambda>t. oid t = i) store = Some t"
    and "availableSeats t < q"
  shows "reserve cast now store rid (Number q) = (Inl NotEnoughSeats, store)"
  using assms by (simp add: reserve_lt)

theorem reserve_insufficient_unchanged_witness:
  "hexObjectId ''656f00000000000000000001'' = Some ''656f00000000000000000001'' \<and>
   find (\<lambda>t. oid t = ''656f00000000000000000001'') [rockConcert] = Some rockConcert \<and>
   availableSeats rockConcert < 501 \<and>
   reserve hexObjectId 1700000060000 [rockConcert] ''656f00000000000000000001'' (Number 501)
     = (Inl NotEnoughSeats, [rockConcert])"
proof -
  have lt: "availableSeats rockConcert < 501" by (simp add: rockConcert_def)
  show ?thesis
    using reserve_insufficient_unchanged[where cast = hexObjectId
        and rid = "''656f00000000000000000001''", OF hexObjectId_sample find_rockConcert lt]
      hexObjectId_sample find_rockConcert lt
    by simp
qed

section \<open>Status transitions of reserve and release\<close>

text \<open>
  Claim C5. A successful Reserve that leaves \<open>availableSeats\<close> at exactly 0 stores the
  status \<^verbatim>\<open>sold-out\<close>; a Release of at least one seat on the ticket so reserved
  succeeds and stores the status \<^verbatim>\<open>active\<close>; a successful Reserve that leaves
  \<open>availableSeats\<close> positive leaves the status as it was. The answered record is the
  stored one.
\<close>

theorem reserve_release_status:
  assumes "cast rid = Some i" and "find (\<lambda>t. oid t = i) store = Some t"
    and "reserve cast now store rid quantity = (Inr t', store')"
  shows "find (\<lambda>r. oid r = i) store' = Some t' \<and>
         (availableSeats t' = 0 \<longrightarrow>
            status t' = ''sold-out'' \<and>
            (\<forall>q now'. 1 \<le> q \<longrightarrow>
               (\<exists>t'' store''. release cast now' store' rid (Number q) = (Inr t'', store'') \<and>
                  find (\<lambda>r. oid r = i) store'' = Some t'' \<and>
                  availableSeats t'' = q \<and> status t'' = ''active''))) \<and>
         (0 < availableSeats t' \<longrightarrow> status t' = status t)"
proof -
  have o: "oid t = i" using find_oid_Some[OF assms(2)] by simp
  have lt: "\<not> js_lt (Fin (availableSeats t)) (ToNumber quantity)"
    using assms reserve_lt[where cast = cast and rid = rid, OF assms(1,2), of quantity now]
    by auto
  obtain m where sub: "js_sub (Fin (availableSeats t)) (ToNumber quantity) = Fin m"
    using assms(3)
      reserve_NaN[where cast = cast and rid = rid, OF assms(1,2) lt, of now]
    by (cases "js_sub (Fin (availableSeats t)) (ToNumber quantity)") auto
  define u where "u = t\<lparr>availableSeats := m,
      status := (if m = 0 then ''sold-out'' else status t), updatedAt := now\<rparr>"
  have shape: "reserve cast now store rid quantity =
      (if validate_document u then (Inr u, updateOne i (\<lambda>_. u) store)
       else (Inl InternalError, store))"
    unfolding u_def
    by (rule reserve_Fin[where cast = cast and rid = rid, OF assms(1,2) lt sub])
  with assms(3) have vu: "validate_document u"
    by (auto split: if_splits)
  with shape assms(3) have res: "t' = u" "store' = updateOne i (\<lambda>_. u) store"
    by auto
  have ou: "oid u = i" using o by (simp add: u_def)
  have f': "find (\<lambda>r. oid r = i) store' = Some t'"
    unfolding res using find_updateOne[of "\<lambda>_. u" t i store] ou assms(2) by simp
  have sold: "status t' = ''sold-out''" if "availableSeats t' = 0"
    using that unfolding res by (simp add: u_def)
  have keep: "status t' = status t" if "0 < availableSeats t'"
    using that unfolding res by (simp add: u_def)
  have rel: "\<exists>t'' store''. release cast now' store' rid (Number n) = (Inr t'', store'') \<and>
                  find (\<lambda>r. oid r = i) store'' = Some t'' \<and>
                  availableSeats t'' = n \<and> status t'' = ''active''"
    if z: "availableSeats t' = 0" and n: "1 \<le> n" for n now'
  proof -
    let ?v = "t'\<lparr>availableSeats := n,
              status := (if 0 < n \<and> status t' = ''sold-out'' then ''active'' else status t'),
              updatedAt := now'\<rparr>"
    have add: "js_add (Fin (availableSeats t')) (ToNumber (Number n)) = Fin n"
      using z js_add_zero[of n] by simp
    have vv: "validate_document ?v"
      using vu n unfolding res by (auto simp add: validate_document_def statuses_def)
    have r: "release cast now' store' rid (Number n) = (Inr ?v, updateOne i (\<lambda>_. ?v) store')"
      using release_Fin[where cast = cast and rid = rid, OF assms(1) f' add, of now'] vv
      by simp
    have ov: "oid ?v = i" using ou res by simp
    have "find (\<lambda>r. oid r = i) (updateOne i (\<lambda>_. ?v) store') = Some ?v"
      using find_updateOne[of "\<lambda>_. ?v" t' i store'] ov f' by simp
    moreover have "availableSeats ?v = n" by simp
    moreover have "status ?v = ''active''" using z n sold by simp
    ultimately show ?thesis using r by blast
  qed
  show ?thesis using f' sold keep rel by blast
qed

theorem reserve_release_status_witness:
  "reserve hexObjectId 1700000060000 [rockConcert] ''656f00000000000000000001'' (Number 500)
     = (Inr (rockConcert\<lparr>availableSeats := 0, status := ''sold-out'',
                          updatedAt := 1700000060000\<rparr>),
        [rockConcert\<lparr>availableSeats := 0, status := ''sold-out'',
                      updatedAt := 1700000060000\<rparr>]) \<and>
   (\<exists>t'' store''.
      release hexObjectId 1700000120000
        [rockConcert\<lparr>availableSeats := 0, status := ''sold-out'',
                      updatedAt := 1700000060000\<rparr>]
        ''656f00000000000000000001'' (Number 1) = (Inr t'', store'') \<and>
      availableSeats t'' = 1 \<and> status t'' = ''active'')"
proof -
  let ?u = "rockConcert\<lparr>availableSeats := 0, status := ''sold-out'',
                          updatedAt := 1700000060000\<rparr>"
  have r: "reserve hexObjectId 1700000060000 [rockConcert] ''656f00000000000000000001''
             (Number 500) = (Inr ?u, [?u])"
    using reserve_exact[where cast = hexObjectId and rid = "''656f00000000000000000001''",
        OF hexObjectId_sample find_rockConcert, of "Number 500" 500 1700000060000]
      validate_rockConcert
    by (simp add: rockConcert_def safe_integer_def)
  have z: "availableSeats ?u = 0" by simp
  from reserve_release_status[where cast = hexObjectId
        and rid = "''656f00000000000000000001''", OF hexObjectId_sample find_rockConcert r] z
  have "\<forall>q now'. 1 \<le> q \<longrightarrow>
               (\<exists>t'' store''. release hexObjectId now' [?u] ''656f00000000000000000001''
                    (Number q) = (Inr t'', store'') \<and>
                  find (\<lambda>r. oid r = ''656f00000000000000000001'') store'' = Some t'' \<and>
                  availableSeats t'' = q \<and> status t'' = ''active'')"
    by blast
  then have "\<exists>t'' store''. release hexObjectId 1700000120000 [?u] ''656f00000000000000000001''
                    (Number 1) = (Inr t'', store'') \<and>
                  find (\<lambda>r. oid r = ''656f00000000000000000001'') store'' = Some t'' \<and>
                  availableSeats t'' = 1 \<and> status t'' = ''active''"
    by (metis order_refl)
  with r show ?thesis by blast
qed

section \<open>Release is not clamped\<close>

text \<open>
  Claim C6, as amended. Release adds the quantity to \<open>availableSeats\<close> and never
  compares with \<open>totalSeats\<close>: on an existing ticket that passes the schema's validators,
  with a seat count, a quantity and a sum that are safe integers, a Release whose
  quantity exceeds \<open>totalSeats - availableSeats\<close> succeeds and the stored
  \<open>availableSeats\<close> is then strictly greater than \<open>totalSeats\<close>.
\<close>

theorem release_exceeds_total:
  assumes "cast rid = Some i" and "find (\<lambda>t. oid t = i) store = Some t"
    and "validate_document t"
    and "safe_integer (availableSeats t)" and "safe_integer q"
    and "safe_integer (availableSeats t + q)"
    and "totalSeats t - availableSeats t < q"
  shows "\<exists>t' store'. release cast now store rid (Number q) = (Inr t', store') \<and>
           find (\<lambda>r. oid r = i) store' = Some t' \<and>
           availableSeats t' = availableSeats t + q \<and>
           totalSeats t' = totalSeats t \<and>
           totalSeats t' < availableSeats t'"
proof -
  let ?v = "t\<lparr>availableSeats := availableSeats t + q,
              status := (if 0 < availableSeats t + q \<and> status t = ''sold-out''
                         then ''active'' else status t),
              updatedAt := now\<rparr>"
  have o: "oid ?v = i" using find_oid_Some[OF assms(2)] by simp
  have r: "release cast now store rid (Number q) = (Inr ?v, updateOne i (\<lambda>_. ?v) store)"
    using release_exact[where cast = cast and rid = rid, OF assms(1,2) _ assms(3,4,5,6),
        of "Number q" now]
    by simp
  have "find (\<lambda>r. oid r = i) (updateOne i (\<lambda>_. ?v) store) = Some ?v"
    using find_updateOne[of "\<lambda>_. ?v" t i store] o assms(2) by simp
  moreover have "totalSeats ?v < availableSeats ?v" using assms(7) by simp
  ultimately show ?thesis using r by (intro exI[of _ ?v] exI) simp
qed

theorem release_exceeds_total_witness:
  "validate_document rockConcert \<and>
   safe_integer (availableSeats rockConcert) \<and> safe_integer 10 \<and>
   safe_integer (availableSeats rockConcert + 10) \<and>
   totalSeats rockConcert - availableSeats rockConcert < 10 \<and>
   (\<exists>t' store'.
      release hexObjectId 1700000060000 [rockConcert] ''656f00000000000000000001'' (Number 10)
        = (Inr t', store') \<and>
      find (\<lambda>r. oid r = ''656f00000000000000000001'') store' = Some t' \<and>
      availableSeats t' = 510 \<and> totalSeats t' = 500 \<and> totalSeats t' < availableSeats t')"
proof -
  have lt: "totalSeats rockConcert - availableSeats rockConcert < 10"
    by (simp add: rockConcert_def)
  have s: "safe_integer (availableSeats rockConcert)" "safe_integer 10"
    "safe_integer (availableSeats rockConcert + 10)"
    by (simp_all add: rockConcert_def safe_integer_def)
  have a: "availableSeats rockConcert + 10 = 510" "totalSeats rockConcert = 500"
    by (simp_all add: rockConcert_def)
  show ?thesis
    using release_exceeds_total[where cast = hexObjectId
        and rid = "''656f00000000000000000001''" and now = 1700000060000,
        OF hexObjectId_sample find_rockConcert validate_rockConcert s lt]
      lt a s validate_rockConcert
    by simp
qed

text \<open>
  Two existing tickets on which the claim as first stated fails. A ticket whose status
  an update has set to a value outside the \<^verbatim>\<open>enum\<close> fails the validators of
  \<^verbatim>\<open>save\<close>: the Release answers 500 and nothing is stored. On a ticket with
  \<open>2^53\<close> seats, all available, the sum \<open>2^53 + 1\<close> is not a double and rounds to
  \<open>2^53\<close>: the Release of one seat succeeds and the stored count is not above the
  total.
\<close>

lemma bitlen_2_53_1: "bitlen 9007199254740993 = 54"
  by (simp add: bitlen.simps)

lemma bitlen_2_53: "bitlen 9007199254740992 = 54"
  by (simp add: bitlen.simps)

lemma js_add_2_53_1: "js_add (Fin 9007199254740992) (Fin 1) = Fin 9007199254740992"
proof -
  have r: "round_double 9007199254740993 = 9007199254740992"
    by (simp add: round_double_def round_magnitude_def Let_def infinity_def bitlen_2_53_1)
  have d: "is_double 9007199254740992"
    by (simp add: is_double_def round_double_def round_magnitude_def Let_def infinity_def
        bitlen_2_53)
  have one: "is_double 1" by (simp add: is_double_safe safe_integer_def)
  show ?thesis using r d one by (simp add: infinity_def)
qed

theorem release_exceeds_total_counterexample:
  "release hexObjectId 1700000060000 [rockConcert\<lparr>status := ''bogus''\<rparr>]
     ''656f00000000000000000001'' (Number 10)
   = (Inl InternalError, [rockConcert\<lparr>status := ''bogus''\<rparr>]) \<and>
   totalSeats (rockConcert\<lparr>totalSeats := 9007199254740992,
                            availableSeats := 9007199254740992\<rparr>)
     - availableSeats (rockConcert\<lparr>totalSeats := 9007199254740992,
                            availableSeats := 9007199254740992\<rparr>) < 1 \<and>
   release hexObjectId 1700000060000
     [rockConcert\<lparr>totalSeats := 9007199254740992, availableSeats := 9007199254740992\<rparr>]
     ''656f00000000000000000001'' (Number 1)
   = (Inr (rockConcert\<lparr>totalSeats := 9007199254740992, availableSeats := 9007199254740992,
                        updatedAt := 1700000060000\<rparr>),
      [rockConcert\<lparr>totalSeats := 9007199254740992, availableSeats := 9007199254740992,
                    updatedAt := 1700000060000\<rparr>])"
proof -
  let ?b = "rockConcert\<lparr>status := ''bogus''\<rparr>"
  let ?x = "rockConcert\<lparr>totalSeats := 9007199254740992, availableSeats := 9007199254740992\<rparr>"
  have fb: "find (\<lambda>r. oid r = ''656f00000000000000000001'') [?b] = Some ?b"
    by (simp add: rockConcert_def)
  have fx: "find (\<lambda>r. oid r = ''656f00000000000000000001'') [?x] = Some ?x"
    by (simp add: rockConcert_def)
  have addb: "js_add (Fin (availableSeats ?b)) (ToNumber (Number 10)) = Fin 510"
    using js_add_safe[of 500 10] by (simp add: rockConcert_def safe_integer_def)
  have nb: "\<not> validate_document
               (?b\<lparr>availableSeats := 510,
                   status := (if 0 < (510::int) \<and> status ?b = ''sold-out''
                              then ''active'' else status ?b),
                   updatedAt := 1700000060000\<rparr>)"
    by (simp add: validate_document_def statuses_def)
  have one: "release hexObjectId 1700000060000 [?b] ''656f00000000000000000001'' (Number 10)
               = (Inl InternalError, [?b])"
    using release_Fin[where cast = hexObjectId and rid = "''656f00000000000000000001''",
        OF hexObjectId_sample fb addb, of 1700000060000] nb
    by simp
  have addx: "js_add (Fin (availableSeats ?x)) (ToNumber (Number 1)) = Fin 9007199254740992"
    using js_add_2_53_1 by simp
  have vx: "validate_document
               (?x\<lparr>availableSeats := 9007199254740992,
                   status := (if 0 < (9007199254740992::int) \<and> status ?x = ''sold-out''
                              then ''active'' else status ?x),
                   updatedAt := 1700000060000\<rparr>)"
    by (simp add: validate_document_def statuses_def eventTypes_def rockConcert_def)
  have two: "release hexObjectId 1700000060000 [?x] ''656f00000000000000000001'' (Number 1)
               = (Inr (?x\<lparr>updatedAt := 1700000060000\<rparr>), [?x\<lparr>updatedAt := 1700000060000\<rparr>])"
    using release_Fin[where cast = hexObjectId and rid = "''656f00000000000000000001''",
        OF hexObjectId_sample fx addx, of 1700000060000] vx
    by (simp add: rockConcert_def)
  show ?thesis using one two by simp
qed

section \<open>Outcomes of Get\<close>

text \<open>
  Claim C7, as amended. Get answers with the stored record whose identifier matches; it
  answers 404 (not found) when the identifier is an ObjectId that no stored record has;
  when the identifier is malformed (it does not cast to an ObjectId) the lookup throws
  and Get answers with the 500 of its \<^verbatim>\<open>catch\<close> block, not with 404.
\<close>

theorem get_ticket_outcomes:
  "(cast rid = None \<longrightarrow> get_ticket cast store rid = Inl InternalError) \<and>
   (\<forall>i. cast rid = Some i \<longrightarrow> (\<forall>t\<in>set store. oid t \<noteq> i) \<longrightarrow>
      get_ticket cast store rid = Inl TicketNotFound) \<and>
   (\<forall>i. cast rid = Some i \<longrightarrow> (\<exists>t\<in>set store. oid t = i) \<longrightarrow>
      (\<exists>t. get_ticket cast store rid = Inr t \<and> t \<in> set store \<and> oid t = i))"
proof (intro conjI allI impI)
  assume "cast rid = None"
  then show "get_ticket cast store rid = Inl InternalError"
    by (simp add: get_ticket_def findById_def)
next
  fix i assume "cast rid = Some i" and "\<forall>t\<in>set store. oid t \<noteq> i"
  then show "get_ticket cast store rid = Inl TicketNotFound"
    using find_oid_None[of i store] by (simp add: get_ticket_def findById_def)
next
  fix i assume c: "cast rid = Some i" and "\<exists>t\<in>set store. oid t = i"
  then have "find (\<lambda>t. oid t = i) store \<noteq> None"
    using find_oid_None[of i store] by blast
  then obtain t where f: "find (\<lambda>t. oid t = i) store = Some t" by blast
  then have "get_ticket cast store rid = Inr t" using c
    by (simp add: get_ticket_def findById_def)
  with find_oid_Some[OF f]
  show "\<exists>t. get_ticket cast store rid = Inr t \<and> t \<in> set store \<and> oid t = i" by blast
qed

theorem get_ticket_outcomes_witness:
  "get_ticket hexObjectId [rockConcert] ''not-an-id'' = Inl InternalError \<and>
   get_ticket hexObjectId [rockConcert] ''656f00000000000000000002'' = Inl TicketNotFound \<and>
   (\<exists>t. get_ticket hexObjectId [rockConcert] ''656f00000000000000000001'' = Inr t \<and>
        t \<in> set [rockConcert] \<and> oid t = ''656f00000000000000000001'')"
proof -
  have bad: "hexObjectId ''not-an-id'' = None" by (simp add: hexObjectId_def)
  have two: "hexObjectId ''656f00000000000000000002'' = Some ''656f00000000000000000002''"
    by (simp add: hexObjectId_def lowerHex_def)
  have none: "\<forall>t\<in>set [rockConcert]. oid t \<noteq> ''656f00000000000000000002''"
    by (simp add: rockConcert_def)
  have some: "\<exists>t\<in>set [rockConcert]. oid t = ''656f00000000000000000001''"
    by (simp add: rockConcert_def)
  show ?thesis
    using get_ticket_outcomes[of hexObjectId "''not-an-id''" "[rockConcert]"]
      get_ticket_outcomes[of hexObjectId "''656f00000000000000000002''" "[rockConcert]"]
      get_ticket_outcomes[of hexObjectId "''656f00000000000000000001''" "[rockConcert]"]
      bad two none some hexObjectId_sample
    by blast
qed

theorem get_ticket_malformed_id_counterexample:
  "hexObjectId ''not-an-id'' = None \<and>
   get_ticket hexObjectId [rockConcert] ''not-an-id'' = Inl InternalError \<and>
   get_ticket hexObjectId [rockConcert] ''not-an-id'' \<noteq> Inl TicketNotFound"
  by (simp add: get_ticket_def findById_def hexObjectId_def)


section \<open>Reserve on a cancelled ticket\<close>

text \<open>
  Release assigns the status only when it is \<^verbatim>\<open>sold-out\<close>: a ticket with any other
  status, \<^verbatim>\<open>cancelled\<close> and \<^verbatim>\<open>completed\<close> among them, keeps it through a successful
  Release.
\<close>

lemma release_keeps_other_status:
  assumes "status t \<noteq> ''sold-out''" and "cast rid = Some i"
    and "find (\<lambda>t. oid t = i) store = Some t"
    and "release cast now store rid quantity = (Inr t', store')"
  shows "status t' = status t"
proof (cases "js_add (Fin (availableSeats t)) (ToNumber quantity)")
  case NaN
  with assms show ?thesis by (simp add: release_NaN)
next
  case (Fin n)
  from release_Fin[where cast = cast and rid = rid, OF assms(2,3) Fin, of now] assms(1,4)
  show ?thesis by (auto split: if_splits)
qed

lemma release_keeps_other_status_witness:
  "status (rockConcert\<lparr>status := ''cancelled''\<rparr>) \<noteq> ''sold-out'' \<and>
   release hexObjectId 1700000060000 [rockConcert\<lparr>status := ''cancelled''\<rparr>]
     ''656f00000000000000000001'' (Number 5)
   = (Inr (rockConcert\<lparr>availableSeats := 505, status := ''cancelled'',
                        updatedAt := 1700000060000\<rparr>),
      [rockConcert\<lparr>availableSeats := 505, status := ''cancelled'',
                    updatedAt := 1700000060000\<rparr>]) \<and>
   status (rockConcert\<lparr>availableSeats := 505, status := ''cancelled'',
                        updatedAt := 1700000060000\<rparr>)
     = status (rockConcert\<lparr>status := ''cancelled''\<rparr>)"
proof -
  have f: "find (\<lambda>t. oid t = ''656f00000000000000000001'')
             [rockConcert\<lparr>status := ''cancelled''\<rparr>] = Some (rockConcert\<lparr>status := ''cancelled''\<rparr>)"
    by (simp add: rockConcert_def)
  have n: "status (rockConcert\<lparr>status := ''cancelled''\<rparr>) \<noteq> ''sold-out''" by simp
  have v: "validate_document (rockConcert\<lparr>status := ''cancelled''\<rparr>)"
    using validate_rockConcert by (simp add: validate_document_def statuses_def)
  have r: "release hexObjectId 1700000060000 [rockConcert\<lparr>status := ''cancelled''\<rparr>]
     ''656f00000000000000000001'' (Number 5)
   = (Inr (rockConcert\<lparr>availableSeats := 505, status := ''cancelled'',
                        updatedAt := 1700000060000\<rparr>),
      [rockConcert\<lparr>availableSeats := 505, status := ''cancelled'',
                    updatedAt := 1700000060000\<rparr>])"
    using release_exact[where cast = hexObjectId and rid = "''656f00000000000000000001''",
        OF hexObjectId_sample f _ v, of "Number 5" 5 1700000060000]
    by (simp add: rockConcert_def safe_integer_def)
  from release_keeps_other_status[where cast = hexObjectId
      and rid = "''656f00000000000000000001''", OF n hexObjectId_sample f r] n r
  show ?thesis by simp
qed

text \<open>
  Claim C8. Release changes the status only from \<^verbatim>\<open>sold-out\<close>, so a cancelled or
  completed ticket keeps its status through every Release. Reserve has no such test: it
  writes \<^verbatim>\<open>sold-out\<close> whenever the seats reach 0. Reserving the 500 remaining seats of
  a cancelled ticket stores the status \<^verbatim>\<open>sold-out\<close>.
\<close>

theorem reserve_overwrites_cancelled:
  "reserve hexObjectId 1700000060000 [rockConcert\<lparr>status := ''cancelled''\<rparr>]
     ''656f00000000000000000001'' (Number 500)
   = (Inr (rockConcert\<lparr>availableSeats := 0, status := ''sold-out'',
                        updatedAt := 1700000060000\<rparr>),
      [rockConcert\<lparr>availableSeats := 0, status := ''sold-out'',
                    updatedAt := 1700000060000\<rparr>])"
proof -
  have f: "find (\<lambda>t. oid t = ''656f00000000000000000001'')
             [rockConcert\<lparr>status := ''cancelled''\<rparr>] = Some (rockConcert\<lparr>status := ''cancelled''\<rparr>)"
    by (simp add: rockConcert_def)
  have v: "validate_document (rockConcert\<lparr>status := ''cancelled''\<rparr>)"
    using validate_rockConcert by (simp add: validate_document_def statuses_def)
  show ?thesis
    using reserve_exact[where cast = hexObjectId and rid = "''656f00000000000000000001''",
        OF hexObjectId_sample f _ _ v, of "Number 500" 500 1700000060000]
    by (simp add: rockConcert_def safe_integer_def)
qed

section \<open>Quantities that are not positive integers\<close>




section \<open>Reserve without a quantity\<close>

text \<open>
  Claim C10, as amended. A Reserve request whose body has no quantity is not rejected by
  the seat comparison: \<open>availableSeats < undefined\<close> is false, and the handler goes on to
  the subtraction, whose result is \<^verbatim>\<open>NaN\<close>. The Number cast of the schema refuses
  \<^verbatim>\<open>NaN\<close>, so the document keeps its seat count and is invalid, the save is rejected,
  the handler answers 500, and the collection is unchanged: no \<^verbatim>\<open>NaN\<close> is stored.
\<close>

theorem reserve_without_quantity:
  assumes "cast rid = Some i" and "find (\<lambda>t. oid t = i) store = Some t"
  shows "(\<exists>d. reserve_begin cast now store rid Undefined = Saving d \<and> castError d \<and>
              availableSeats (current d) = availableSeats t) \<and>
         reserve cast now store rid Undefined = (Inl InternalError, store)"
  using assms
  by (simp add: reserve_def reserve_begin_def finish_def findById_def save_def hydrate_def
      set_availableSeats_def set_status_def set_updatedAt_def Let_def)

theorem reserve_without_quantity_witness:
  "(\<exists>d. reserve_begin hexObjectId 1700000060000 [rockConcert] ''656f00000000000000000001''
          Undefined = Saving d \<and> castError d \<and>
        availableSeats (current d) = availableSeats rockConcert) \<and>
   reserve hexObjectId 1700000060000 [rockConcert] ''656f00000000000000000001'' Undefined
     = (Inl InternalError, [rockConcert])"
  using reserve_without_quantity[where cast = hexObjectId
      and rid = "''656f00000000000000000001''" and now = 1700000060000,
      OF hexObjectId_sample find_rockConcert]
  by simp

theorem reserve_without_quantity_counterexample:
  "fst (reserve hexObjectId 1700000060000 [rockConcert] ''656f00000000000000000001''
          Undefined) = Inl InternalError \<and>
   snd (reserve hexObjectId 1700000060000 [rockConcert] ''656f00000000000000000001''
          Undefined) = [rockConcert]"
  using reserve_NaN[where cast = hexObjectId and rid = "''656f00000000000000000001''",
      OF hexObjectId_sample find_rockConcert, of Undefined 1700000060000]
  by simp

section \<open>Concurrent and sequential reservations\<close>

text \<open>
  A task that is scheduled twice in a row, with no other task between its read and its
  write, is the handler \<open>reserve\<close>.
\<close>

lemma reserve_step_twice:
  "(case reserve_step cast c Waiting store of
      (s, store') \<Rightarrow> reserve_step cast c s store')
   = (case reserve cast (call_now c) store (call_id c) (call_quantity c) of
        (r, store') \<Rightarrow> (Completed r, store'))"
  by (simp add: reserve_step_def reserve_def finish_def split: progress.splits sum.splits)

lemma find_three:
  "find (\<lambda>t. oid t = ''656f00000000000000000001'') [rockConcert\<lparr>availableSeats := 3\<rparr>]
     = Some (rockConcert\<lparr>availableSeats := 3\<rparr>)"
  by (simp add: rockConcert_def)

lemma reserve_all_counts:
  assumes "cast rid = Some i" and "0 < q"
  shows "find (\<lambda>t. oid t = i) store = Some t \<Longrightarrow> validate_document t
    \<Longrightarrow> 0 \<le> availableSeats t \<Longrightarrow> safe_integer (availableSeats t)
    \<Longrightarrow> reserve_all cast nows store rid (Number q) = (rs, store')
    \<Longrightarrow> length [r \<leftarrow> rs. \<not> isl r] = min (length nows) (nat (availableSeats t div q)) \<and>
        length [r \<leftarrow> rs. r = Inl NotEnoughSeats]
          = length nows - min (length nows) (nat (availableSeats t div q)) \<and>
        (\<exists>t'. find (\<lambda>r. oid r = i) store' = Some t' \<and>
           availableSeats t'
             = availableSeats t - q * int (min (length nows) (nat (availableSeats t div q))))"
proof (induction nows arbitrary: store t rs store')
  case Nil
  then show ?case by simp
next
  case (Cons now nows)
  let ?a = "availableSeats t"
  show ?case
  proof (cases "?a < q")
    case True
    have first: "reserve cast now store rid (Number q) = (Inl NotEnoughSeats, store)"
      using assms(1) Cons.prems(1) True by (simp add: reserve_lt)
    obtain rs1 where rest: "reserve_all cast nows store rid (Number q) = (rs1, store')"
      and rs: "rs = Inl NotEnoughSeats # rs1"
      using Cons.prems(5) first by (auto split: prod.splits)
    have z: "?a div q = 0" using True Cons.prems(3) by simp
    from Cons.IH[OF Cons.prems(1,2,3,4) rest] z rs show ?thesis by simp
  next
    case False
    let ?u = "t\<lparr>availableSeats := ?a - q,
                 status := (if ?a - q = 0 then ''sold-out'' else status t),
                 updatedAt := now\<rparr>"
    let ?s1 = "updateOne i (\<lambda>_. ?u) store"
    have sq: "safe_integer q" and sd: "safe_integer (?a - q)"
      using False assms(2) Cons.prems(3,4) by (simp_all add: safe_integer_def)
    have first: "reserve cast now store rid (Number q) = (Inr ?u, ?s1)"
      using reserve_exact[where cast = cast and rid = rid,
          OF assms(1) Cons.prems(1) _ False Cons.prems(2,4) sq sd, of "Number q" now]
      by simp
    obtain rs1 where rest: "reserve_all cast nows ?s1 rid (Number q) = (rs1, store')"
      and rs: "rs = Inr ?u # rs1"
      using Cons.prems(5) first by (auto split: prod.splits)
    have ou: "oid ?u = i" using find_oid_Some[OF Cons.prems(1)] by simp
    have f1: "find (\<lambda>t. oid t = i) ?s1 = Some ?u"
      using find_updateOne[of "\<lambda>_. ?u" t i store] ou Cons.prems(1) by simp
    have vu: "validate_document ?u"
      using Cons.prems(2) by (simp add: validate_document_def statuses_def)
    have nn: "0 \<le> availableSeats ?u" using False by simp
    have su: "safe_integer (availableSeats ?u)" using sd by simp
    have d: "?a div q = (?a - q) div q + 1"
      using div_add_self2[of q "?a - q"] assms(2) by simp
    have dn: "0 \<le> (?a - q) div q" using False assms(2) by (simp add: pos_imp_zdiv_nonneg_iff)
    have m: "min (Suc (length nows)) (nat (?a div q))
               = Suc (min (length nows) (nat ((?a - q) div q)))"
      using d dn by (simp add: nat_add_distrib)
    have au: "availableSeats ?u = ?a - q" by simp
    from Cons.IH[OF f1 vu nn su rest]
    have ih: "length [r \<leftarrow> rs1. \<not> isl r] = min (length nows) (nat ((?a - q) div q))"
      "length [r \<leftarrow> rs1. r = Inl NotEnoughSeats]
          = length nows - min (length nows) (nat ((?a - q) div q))"
      "\<exists>t'. find (\<lambda>r. oid r = i) store' = Some t' \<and>
           availableSeats t' = (?a - q) - q * int (min (length nows) (nat ((?a - q) div q)))"
      unfolding au by blast+
    have c1: "length [r \<leftarrow> rs. \<not> isl r] = min (length (now # nows)) (nat (?a div q))"
      using ih(1) rs m by simp
    have c2: "length [r \<leftarrow> rs. r = Inl NotEnoughSeats]
          = length (now # nows) - min (length (now # nows)) (nat (?a div q))"
      using ih(2) rs m by simp
    have c3: "\<exists>t'. find (\<lambda>r. oid r = i) store' = Some t' \<and>
           availableSeats t' = ?a - q * int (min (length (now # nows)) (nat (?a div q)))"
      using ih(3) m by (simp add: algebra_simps)
    show ?thesis using c1 c2 c3 by blast
  qed
qed

text \<open>
  Claim C1, as amended. Reserve is a read followed by a write and nothing makes the
  pair atomic; two Reserve calls whose steps interleave both read the same seat count
  and both succeed. When the calls run one after the other, each finished before the
  next starts, on a ticket that passes the schema's validators, \<open>K\<close> calls for \<open>q > 0\<close>
  seats each on \<open>N \<ge> 0\<close> available seats (a safe integer) with \<open>K * q > N\<close> give exactly
  \<open>N div q\<close> successes and \<open>K - N div q\<close> failures for lack of seats, and leave
  \<open>N mod q\<close> seats available.
\<close>

theorem reserve_sequential_outcomes:
  assumes "cast rid = Some i" and "find (\<lambda>t. oid t = i) store = Some t"
    and "validate_document t"
    and "availableSeats t = N" and "0 \<le> N" and "safe_integer N" and "0 < q"
    and "N < int (length nows) * q"
    and "reserve_all cast nows store rid (Number q) = (rs, store')"
  shows "length [r \<leftarrow> rs. \<not> isl r] = nat (N div q) \<and>
         length [r \<leftarrow> rs. r = Inl NotEnoughSeats] = length nows - nat (N div q) \<and>
         (\<exists>t'. find (\<lambda>r. oid r = i) store' = Some t' \<and> availableSeats t' = N mod q)"
proof -
  have below: "N div q * q \<le> N"
    using div_mult_mod_eq[of N q] pos_mod_sign[of q N] assms(7) by linarith
  have "N div q < int (length nows)"
  proof (rule ccontr)
    assume "\<not> N div q < int (length nows)"
    then have "int (length nows) * q \<le> N div q * q"
      using assms(7) by (simp add: mult_right_mono)
    with below assms(8) show False by linarith
  qed
  moreover have "0 \<le> N div q" using assms(5,7) by (simp add: pos_imp_zdiv_nonneg_iff)
  ultimately have m: "min (length nows) (nat (N div q)) = nat (N div q)" by simp
  have md: "N - q * int (nat (N div q)) = N mod q"
    using \<open>0 \<le> N div q\<close> by (simp add: minus_mult_div_eq_mod)
  have nn: "0 \<le> availableSeats t" and sn: "safe_integer (availableSeats t)"
    using assms(4,5,6) by simp_all
  from reserve_all_counts[where cast = cast and rid = rid,
      OF assms(1,7,2,3) nn sn assms(9)] assms(4) m md
  show ?thesis by simp
qed

theorem reserve_sequential_outcomes_witness:
  "validate_document (rockConcert\<lparr>availableSeats := 3\<rparr>) \<and> safe_integer 3 \<and>
   length [r \<leftarrow> fst (reserve_all hexObjectId [1700000060000, 1700000060001]
                      [rockConcert\<lparr>availableSeats := 3\<rparr>] ''656f00000000000000000001''
                      (Number 2)). \<not> isl r] = nat (3 div 2) \<and>
   length [r \<leftarrow> fst (reserve_all hexObjectId [1700000060000, 1700000060001]
                      [rockConcert\<lparr>availableSeats := 3\<rparr>] ''656f00000000000000000001''
                      (Number 2)). r = Inl NotEnoughSeats]
     = length [1700000060000, 1700000060001 :: int] - nat (3 div 2) \<and>
   (\<exists>t'. find (\<lambda>r. oid r = ''656f00000000000000000001'')
           (snd (reserve_all hexObjectId [1700000060000, 1700000060001]
                      [rockConcert\<lparr>availableSeats := 3\<rparr>] ''656f00000000000000000001''
                      (Number 2))) = Some t' \<and>
         availableSeats t' = 3 mod 2)"
proof -
  have a: "availableSeats (rockConcert\<lparr>availableSeats := 3\<rparr>) = 3" by simp
  have k: "(3::int) < int (length [1700000060000, 1700000060001 :: int]) * 2" by simp
  have v: "validate_document (rockConcert\<lparr>availableSeats := 3\<rparr>)"
    using validate_rockConcert by (simp add: validate_document_def)
  have s: "safe_integer 3" by (simp add: safe_integer_def)
  have "length [r \<leftarrow> fst (reserve_all hexObjectId [1700000060000, 1700000060001]
                      [rockConcert\<lparr>availableSeats := 3\<rparr>] ''656f00000000000000000001''
                      (Number 2)). \<not> isl r] = nat (3 div 2) \<and>
   length [r \<leftarrow> fst (reserve_all hexObjectId [1700000060000, 1700000060001]
                      [rockConcert\<lparr>availableSeats := 3\<rparr>] ''656f00000000000000000001''
                      (Number 2)). r = Inl NotEnoughSeats]
     = length [1700000060000, 1700000060001 :: int] - nat (3 div 2) \<and>
   (\<exists>t'. find (\<lambda>r. oid r = ''656f00000000000000000001'')
           (snd (reserve_all hexObjectId [1700000060000, 1700000060001]
                      [rockConcert\<lparr>availableSeats := 3\<rparr>] ''656f00000000000000000001''
                      (Number 2))) = Some t' \<and>
         availableSeats t' = 3 mod 2)"
    by (rule reserve_sequential_outcomes[where cast = hexObjectId
          and rid = "''656f00000000000000000001''", OF hexObjectId_sample find_three v a _ s _ k
          prod.collapse[symmetric]])
      simp_all
  with v s show ?thesis by blast
qed

text \<open>
  Two calls for 2 seats each on a ticket with 3 seats, scheduled read, read, write,
  write: both succeed, where \<open>3 div 2 = 1\<close>, and the ticket is left with 1 seat.
\<close>

lemma js_sub_3_2: "js_sub (Fin 3) (Fin 2) = Fin 1"
  using js_sub_safe[of 3 2] by (simp add: safe_integer_def)

theorem reserve_interleaved_counterexample:
  "length (filter succeeded (fst (run_schedule hexObjectId
            [\<lparr>call_id = ''656f00000000000000000001'', call_quantity = Number 2,
              call_now = 1700000060000\<rparr>,
             \<lparr>call_id = ''656f00000000000000000001'', call_quantity = Number 2,
              call_now = 1700000060001\<rparr>]
            [0, 1, 0, 1]
            ([Waiting, Waiting], [rockConcert\<lparr>availableSeats := 3\<rparr>])))) = 2 \<and>
   nat (3 div 2) = 1 \<and>
   map availableSeats (snd (run_schedule hexObjectId
            [\<lparr>call_id = ''656f00000000000000000001'', call_quantity = Number 2,
              call_now = 1700000060000\<rparr>,
             \<lparr>call_id = ''656f00000000000000000001'', call_quantity = Number 2,
              call_now = 1700000060001\<rparr>]
            [0, 1, 0, 1]
            ([Waiting, Waiting], [rockConcert\<lparr>availableSeats := 3\<rparr>]))) = [1]"
  by (simp add: reserve_step_def reserve_begin_def finish_def findById_def save_def
      hydrate_def set_availableSeats_def set_status_def set_updatedAt_def Let_def
      write_modified_def hexObjectId_sample rockConcert_def js_sub_3_2
      validate_document_def eventTypes_def statuses_def
      del: js_sub.simps)

section \<open>The seat invariant\<close>

lemma kept_updateOne:
  assumes "\<forall>t\<in>set store. P t" and "find (\<lambda>t. oid t = i) store = Some t" and "P (f t)"
  shows "\<forall>r\<in>set (updateOne i f store). P r"
  using set_updateOne[OF assms(2), of f] assms(1,3) by auto

lemma create_keeps_seats:
  assumes "\<forall>t\<in>set store. seats_in_range t \<and> safe_integer (totalSeats t)"
    and "in_bounds cast store (Create new_id body)"
  shows "\<forall>t\<in>set (snd (create_ticket new_id now store body)).
           seats_in_range t \<and> safe_integer (totalSeats t)"
  using assms
  by (auto simp add: create_ticket_def insertOne_def validate_def in_bounds_def new_Ticket_def
      seats_in_range_def or_default_def split: option.splits)

lemma update_keeps_seats:
  assumes "\<forall>t\<in>set store. seats_in_range t \<and> safe_integer (totalSeats t)"
    and "in_bounds cast store (Update rid body)"
  shows "\<forall>t\<in>set (snd (update_ticket cast now store rid body)).
           seats_in_range t \<and> safe_integer (totalSeats t)"
proof (cases "cast rid")
  case None
  with assms(1) show ?thesis by (simp add: update_ticket_def findByIdAndUpdate_def)
next
  case (Some i)
  show ?thesis
  proof (cases "find (\<lambda>t. oid t = i) store")
    case None
    with Some assms(1) show ?thesis by (simp add: update_ticket_def findByIdAndUpdate_def)
  next
    case (Some t)
    have t: "seats_in_range t \<and> safe_integer (totalSeats t)"
      using find_oid_Some[OF Some] assms(1) by blast
    have "seats_in_range (apply_update (body\<lparr>b_updatedAt := Some now\<rparr>) t) \<and>
          safe_integer (totalSeats (apply_update (body\<lparr>b_updatedAt := Some now\<rparr>) t))"
      using assms(2) \<open>cast rid = Some i\<close> Some t
      by (auto simp add: in_bounds_def findById_def seats_in_range_def apply_update_def
          or_default_def split: option.splits)
    from kept_updateOne[where P = "\<lambda>t. seats_in_range t \<and> safe_integer (totalSeats t)",
        OF assms(1) Some, of "apply_update (body\<lparr>b_updatedAt := Some now\<rparr>)", OF this]
    show ?thesis using \<open>cast rid = Some i\<close> Some
      by (simp add: update_ticket_def findByIdAndUpdate_def)
  qed
qed

lemma reserve_no_ticket:
  assumes "cast rid = None \<or> (\<exists>i. cast rid = Some i \<and> find (\<lambda>t. oid t = i) store = None)"
  shows "snd (reserve cast now store rid quantity) = store"
    and "snd (release cast now store rid quantity) = store"
  using assms
  by (auto simp add: reserve_def reserve_begin_def release_def release_begin_def finish_def
      findById_def)

lemma reserve_keeps_seats:
  assumes "\<forall>t\<in>set store. seats_in_range t \<and> safe_integer (totalSeats t)"
    and "in_bounds cast store (Reserve rid quantity)"
  shows "\<forall>t\<in>set (snd (reserve cast now store rid quantity)).
           seats_in_range t \<and> safe_integer (totalSeats t)"
proof -
  from assms(2) obtain n where q: "quantity = Number n" and n: "1 \<le> n"
    by (auto simp add: in_bounds_def split: jsval.splits)
  show ?thesis
  proof (cases "\<exists>i t. cast rid = Some i \<and> find (\<lambda>t. oid t = i) store = Some t")
    case False
    then have "cast rid = None \<or> (\<exists>i. cast rid = Some i \<and> find (\<lambda>t. oid t = i) store = None)"
      by (cases "cast rid") auto
    from reserve_no_ticket(1)[where cast = cast and rid = rid, OF this] assms(1)
    show ?thesis by simp
  next
    case True
    then obtain i t where c: "cast rid = Some i" and f: "find (\<lambda>t. oid t = i) store = Some t"
      by blast
    have t: "seats_in_range t" "safe_integer (totalSeats t)"
      using find_oid_Some[OF f] assms(1) by blast+
    show ?thesis
    proof (cases "availableSeats t < n")
      case True
      then show ?thesis using assms(1) c f q by (simp add: reserve_lt)
    next
      case False
      let ?u = "t\<lparr>availableSeats := availableSeats t - n,
                   status := (if availableSeats t - n = 0 then ''sold-out'' else status t),
                   updatedAt := now\<rparr>"
      have lt: "\<not> js_lt (Fin (availableSeats t)) (ToNumber quantity)"
        using False q by simp
      have s: "safe_integer (availableSeats t)" "safe_integer n"
        "safe_integer (availableSeats t - n)"
        using t False n by (simp_all add: seats_in_range_def safe_integer_def)
      have sub: "js_sub (Fin (availableSeats t)) (ToNumber quantity)
                   = Fin (availableSeats t - n)"
        using js_sub_safe[OF s] q by simp
      have u: "seats_in_range ?u \<and> safe_integer (totalSeats ?u)"
        using t False n by (simp add: seats_in_range_def)
      from kept_updateOne[where P = "\<lambda>t. seats_in_range t \<and> safe_integer (totalSeats t)",
          OF assms(1) f, of "\<lambda>_. ?u", OF u] assms(1)
      show ?thesis
        using reserve_Fin[where cast = cast and rid = rid, OF c f lt sub, of now]
        by (simp split: if_splits)
    qed
  qed
qed

lemma release_keeps_seats:
  assumes "\<forall>t\<in>set store. seats_in_range t \<and> safe_integer (totalSeats t)"
    and "in_bounds cast store (Release rid quantity)"
  shows "\<forall>t\<in>set (snd (release cast now store rid quantity)).
           seats_in_range t \<and> safe_integer (totalSeats t)"
proof -
  from assms(2) obtain n where q: "quantity = Number n" and n: "1 \<le> n"
    by (auto simp add: in_bounds_def split: jsval.splits)
  show ?thesis
  proof (cases "\<exists>i t. cast rid = Some i \<and> find (\<lambda>t. oid t = i) store = Some t")
    case False
    then have "cast rid = None \<or> (\<exists>i. cast rid = Some i \<and> find (\<lambda>t. oid t = i) store = None)"
      by (cases "cast rid") auto
    from reserve_no_ticket(2)[where cast = cast and rid = rid, OF this] assms(1)
    show ?thesis by simp
  next
    case True
    then obtain i t where c: "cast rid = Some i" and f: "find (\<lambda>t. oid t = i) store = Some t"
      by blast
    have t: "seats_in_range t" "safe_integer (totalSeats t)"
      using find_oid_Some[OF f] assms(1) by blast+
    have le: "n \<le> totalSeats t - availableSeats t"
      using assms(2) q c f by (simp add: in_bounds_def findById_def)
    let ?v = "t\<lparr>availableSeats := availableSeats t + n,
              status := (if 0 < availableSeats t + n \<and> status t = ''sold-out''
                         then ''active'' else status t),
              updatedAt := now\<rparr>"
    have s: "safe_integer (availableSeats t)" "safe_integer n"
      "safe_integer (availableSeats t + n)"
      using t le n by (simp_all add: seats_in_range_def safe_integer_def)
    have add: "js_add (Fin (availableSeats t)) (ToNumber quantity)
                 = Fin (availableSeats t + n)"
      using js_add_safe[OF s] q by simp
    have v: "seats_in_range ?v \<and> safe_integer (totalSeats ?v)"
      using t le n by (simp add: seats_in_range_def)
    from kept_updateOne[where P = "\<lambda>t. seats_in_range t \<and> safe_integer (totalSeats t)",
        OF assms(1) f, of "\<lambda>_. ?v", OF v] assms(1)
    show ?thesis
      using release_Fin[where cast = cast and rid = rid, OF c f add, of now]
      by (simp split: if_splits)
  qed
qed

lemma handle_keeps_seats:
  assumes "\<forall>t\<in>set store. seats_in_range t \<and> safe_integer (totalSeats t)"
    and "in_bounds cast store req"
  shows "\<forall>t\<in>set (handle cast now store req). seats_in_range t \<and> safe_integer (totalSeats t)"
proof (cases req)
  case (Create new_id body)
  with create_keeps_seats[of store cast new_id body now] assms show ?thesis
    by (simp add: handle_def)
next
  case (Update rid body)
  with update_keeps_seats[of store cast rid body now] assms show ?thesis
    by (simp add: handle_def)
next
  case (Reserve rid quantity)
  with reserve_keeps_seats[of store cast rid quantity now] assms show ?thesis
    by (simp add: handle_def)
next
  case (Release rid quantity)
  with release_keeps_seats[of store cast rid quantity now] assms show ?thesis
    by (simp add: handle_def)
qed

lemma run_keeps_seats:
  assumes "\<forall>t\<in>set store. seats_in_range t \<and> safe_integer (totalSeats t)"
    and "all_in_bounds cast store reqs"
  shows "\<forall>t\<in>set (run_requests cast store reqs).
           seats_in_range t \<and> safe_integer (totalSeats t)"
  using assms
proof (induction reqs arbitrary: store)
  case Nil
  then show ?case by simp
next
  case (Cons a reqs)
  obtain now req where a: "a = (now, req)" by (cases a)
  from Cons.prems a have b: "in_bounds cast store req"
    and rest: "all_in_bounds cast (handle cast now store req) reqs"
    by simp_all
  from Cons.IH[OF handle_keeps_seats[OF Cons.prems(1) b] rest] a show ?case by simp
qed

text \<open>
  Claim C2. Starting from a collection whose tickets all satisfy
  \<open>0 \<le> availableSeats \<le> totalSeats\<close> with a total that is a safe integer, after any
  sequence of Create, Update, Reserve and Release operations that each use valid
  quantities within bounds, every stored ticket satisfies
  \<open>0 \<le> availableSeats \<le> totalSeats\<close>.
\<close>

theorem seat_invariant_preserved:
  assumes "\<forall>t\<in>set store. seats_in_range t \<and> safe_integer (totalSeats t)"
    and "all_in_bounds cast store reqs"
  shows "\<forall>t\<in>set (run_requests cast store reqs). seats_in_range t"
  using run_keeps_seats[OF assms] by blast

theorem seat_invariant_preserved_witness:
  "list_all (\<lambda>t. seats_in_range t \<and> safe_integer (totalSeats t)) [rockConcert] \<and>
   all_in_bounds hexObjectId [rockConcert]
     [(1700000000000, Create ''656f00000000000000000002'' movieBody),
      (1700000060000, Reserve ''656f00000000000000000001'' (Number 500)),
      (1700000120000, Release ''656f00000000000000000001'' (Number 20)),
      (1700000180000, Update ''656f00000000000000000002''
                        (emptyBody\<lparr>b_availableSeats := Some 150\<rparr>))] \<and>
   list_all seats_in_range
     (run_requests hexObjectId [rockConcert]
       [(1700000000000, Create ''656f00000000000000000002'' movieBody),
        (1700000060000, Reserve ''656f00000000000000000001'' (Number 500)),
        (1700000120000, Release ''656f00000000000000000001'' (Number 20)),
        (1700000180000, Update ''656f00000000000000000002''
                          (emptyBody\<lparr>b_availableSeats := Some 150\<rparr>))]) \<and>
   map availableSeats
     (run_requests hexObjectId [rockConcert]
       [(1700000000000, Create ''656f00000000000000000002'' movieBody),
        (1700000060000, Reserve ''656f00000000000000000001'' (Number 500)),
        (1700000120000, Release ''656f00000000000000000001'' (Number 20)),
        (1700000180000, Update ''656f00000000000000000002''
                          (emptyBody\<lparr>b_availableSeats := Some 150\<rparr>))]) = [20, 150]"
proof -
  let ?reqs = "[(1700000000000, Create ''656f00000000000000000002'' movieBody),
      (1700000060000, Reserve ''656f00000000000000000001'' (Number 500)),
      (1700000120000, Release ''656f00000000000000000001'' (Number 20)),
      (1700000180000, Update ''656f00000000000000000002''
                        (emptyBody\<lparr>b_availableSeats := Some 150\<rparr>))]"
  let ?sold = "rockConcert\<lparr>availableSeats := 0, status := ''sold-out'',
                            updatedAt := 1700000060000\<rparr>"
  let ?freed = "rockConcert\<lparr>availableSeats := 20, status := ''active'',
                            updatedAt := 1700000120000\<rparr>"
  have two: "hexObjectId ''656f00000000000000000002'' = Some ''656f00000000000000000002''"
    by (simp add: hexObjectId_def lowerHex_def)
  have h1: "handle hexObjectId 1700000000000 [rockConcert]
              (Create ''656f00000000000000000002'' movieBody) = [rockConcert, moviePremiere]"
    by (simp add: handle_def create_ticket_def insertOne_def validate_def new_Ticket_def
        or_default_def required_string_def eventTypes_def statuses_def rockConcert_def
        movieBody_def moviePremiere_def)
  have f1: "find (\<lambda>t. oid t = ''656f00000000000000000001'') [rockConcert, moviePremiere]
              = Some rockConcert"
    by (simp add: rockConcert_def)
  have h2: "handle hexObjectId 1700000060000 [rockConcert, moviePremiere]
              (Reserve ''656f00000000000000000001'' (Number 500)) = [?sold, moviePremiere]"
    using reserve_exact[where cast = hexObjectId and rid = "''656f00000000000000000001''",
        OF hexObjectId_sample f1 _ _ validate_rockConcert, of "Number 500" 500 1700000060000]
    by (simp add: handle_def rockConcert_def safe_integer_def)
  have f2: "find (\<lambda>t. oid t = ''656f00000000000000000001'') [?sold, moviePremiere]
              = Some ?sold"
    by (simp add: rockConcert_def)
  have v2: "validate_document ?sold"
    using validate_rockConcert by (simp add: validate_document_def statuses_def)
  have h3: "handle hexObjectId 1700000120000 [?sold, moviePremiere]
              (Release ''656f00000000000000000001'' (Number 20)) = [?freed, moviePremiere]"
    using release_exact[where cast = hexObjectId and rid = "''656f00000000000000000001''",
        OF hexObjectId_sample f2 _ v2, of "Number 20" 20 1700000120000]
    by (simp add: handle_def rockConcert_def safe_integer_def)
  have h4: "handle hexObjectId 1700000180000 [?freed, moviePremiere]
              (Update ''656f00000000000000000002''
                        (emptyBody\<lparr>b_availableSeats := Some 150\<rparr>))
            = [?freed, moviePremiere\<lparr>availableSeats := 150, updatedAt := 1700000180000\<rparr>]"
    by (simp add: handle_def update_ticket_def findByIdAndUpdate_def apply_update_def
        or_default_def two rockConcert_def moviePremiere_def emptyBody_def)
  have run: "run_requests hexObjectId [rockConcert] ?reqs
            = [?freed, moviePremiere\<lparr>availableSeats := 150, updatedAt := 1700000180000\<rparr>]"
    by (simp add: h1 h2 h3 h4)
  have start: "\<forall>t\<in>set [rockConcert]. seats_in_range t \<and> safe_integer (totalSeats t)"
    by (simp add: seats_in_range_def safe_integer_def rockConcert_def)
  have b1: "in_bounds hexObjectId [rockConcert] (Create ''656f00000000000000000002'' movieBody)"
    by (simp add: in_bounds_def movieBody_def safe_integer_def)
  have b2: "in_bounds hexObjectId [rockConcert, moviePremiere]
              (Reserve ''656f00000000000000000001'' (Number 500))"
    by (simp add: in_bounds_def)
  have b3: "in_bounds hexObjectId [?sold, moviePremiere]
              (Release ''656f00000000000000000001'' (Number 20))"
    by (simp add: in_bounds_def findById_def hexObjectId_sample rockConcert_def)
  have b4: "in_bounds hexObjectId [?freed, moviePremiere]
              (Update ''656f00000000000000000002''
                        (emptyBody\<lparr>b_availableSeats := Some 150\<rparr>))"
    by (simp add: in_bounds_def findById_def two rockConcert_def moviePremiere_def
        emptyBody_def)
  have bounds: "all_in_bounds hexObjectId [rockConcert] ?reqs"
    by (simp add: h1 h2 h3 h4 b1 b2 b3 b4)
  from seat_invariant_preserved[OF start bounds]
  have "list_all seats_in_range (run_requests hexObjectId [rockConcert] ?reqs)"
    by (simp only: list_all_iff)
  moreover have "list_all (\<lambda>t. seats_in_range t \<and> safe_integer (totalSeats t)) [rockConcert]"
    using start by (simp only: list_all_iff)
  moreover have "map availableSeats (run_requests hexObjectId [rockConcert] ?reqs) = [20, 150]"
    unfolding run by simp
  ultimately show ?thesis using bounds by blast
qed

section \<open>The answer of List\<close>

lemma same_day_iff:
  fixes x d :: int
  shows "(d * 86400000 \<le> x \<and> x < d * 86400000 + 86400000) \<longleftrightarrow> x div 86400000 = d"
proof
  assume a: "d * 86400000 \<le> x \<and> x < d * 86400000 + 86400000"
  have "x = (x - d * 86400000) + d * 86400000" by simp
  then have "x div 86400000 = ((x - d * 86400000) + d * 86400000) div 86400000" by simp
  also have "\<dots> = d + (x - d * 86400000) div 86400000"
    by (rule div_mult_self1) simp
  also have "(x - d * 86400000) div 86400000 = 0"
    using a by simp
  finally show "x div 86400000 = d" by simp
next
  assume e: "x div 86400000 = d"
  have "x = x div 86400000 * 86400000 + x mod 86400000" by simp
  moreover have "0 \<le> x mod 86400000" "x mod 86400000 < 86400000" by simp_all
  ultimately show "d * 86400000 \<le> x \<and> x < d * 86400000 + 86400000"
    using e by linarith
qed

lemma supplied_cases:
  "supplied v = None \<and> \<not> truthy v \<or> (\<exists>s. v = Some s \<and> s \<noteq> [] \<and> supplied v = Some s \<and> truthy v)"
  by (cases v) (auto simp add: supplied_def truthy_def)

lemma matches_build_filter:
  assumes "\<forall>s. supplied (q_date q) = Some s \<longrightarrow>
             (\<exists>d. parseDate s = Some (d * 86400000) \<and>
                  \<bar>d * 86400000 + 86400000\<bar> \<le> 8640000000000000)"
  shows "matches (build_filter parseFloat parseDate q) t \<longleftrightarrow>
     spec_matches (supplied (q_eventType q)) (supplied (q_status q))
       (Option.bind (supplied (q_minPrice q)) parseFloat)
       (Option.bind (supplied (q_maxPrice q)) parseFloat)
       (map_option (\<lambda>n. n div 86400000) (Option.bind (supplied (q_date q)) parseDate)) t"
proof -
  have ety: "(case f_eventType (build_filter parseFloat parseDate q) of
                None \<Rightarrow> True | Some e \<Rightarrow> eventType t = e)
             = (case supplied (q_eventType q) of None \<Rightarrow> True | Some e \<Rightarrow> eventType t = e)"
    by (simp add: build_filter_def supplied_def)
  have st: "(case f_status (build_filter parseFloat parseDate q) of
                None \<Rightarrow> True | Some s \<Rightarrow> status t = s)
             = (case supplied (q_status q) of None \<Rightarrow> True | Some s \<Rightarrow> status t = s)"
    by (simp add: build_filter_def supplied_def)
  have pr: "(case f_price (build_filter parseFloat parseDate q) of
        None \<Rightarrow> True
      | Some pc \<Rightarrow>
          (case p_gte pc of Some (Some lo) \<Rightarrow> lo \<le> price t | _ \<Rightarrow> True) \<and>
          (case p_lte pc of Some (Some hi) \<Rightarrow> price t \<le> hi | _ \<Rightarrow> True))
       = ((case Option.bind (supplied (q_minPrice q)) parseFloat of
             None \<Rightarrow> True | Some l \<Rightarrow> l \<le> price t) \<and>
          (case Option.bind (supplied (q_maxPrice q)) parseFloat of
             None \<Rightarrow> True | Some h \<Rightarrow> price t \<le> h))"
    using supplied_cases[of "q_minPrice q"] supplied_cases[of "q_maxPrice q"]
    by (auto simp add: build_filter_def split: option.splits)
  have dt: "(case f_date (build_filter parseFloat parseDate q) of
        None \<Rightarrow> True
      | Some dc \<Rightarrow>
          (case d_gte dc of Some a \<Rightarrow> a \<le> date t | None \<Rightarrow> True) \<and>
          (case d_lt dc of Some b \<Rightarrow> date t < b | None \<Rightarrow> True))
       = (case map_option (\<lambda>n. n div 86400000) (Option.bind (supplied (q_date q)) parseDate) of
            None \<Rightarrow> True | Some d \<Rightarrow> date t div 86400000 = d)"
  proof (cases "truthy (q_date q)")
    case False
    then show ?thesis by (simp add: build_filter_def supplied_def)
  next
    case True
    then obtain s where s: "q_date q = Some s" "supplied (q_date q) = Some s"
      using supplied_cases[of "q_date q"] by auto
    with assms obtain d where d: "parseDate s = Some (d * 86400000)"
      "\<bar>d * 86400000 + 86400000\<bar> \<le> 8640000000000000" by blast
    show ?thesis
      using True s d same_day_iff[of d "date t"]
      by (simp add: build_filter_def new_Date_def Let_def)
  qed
  show ?thesis
    unfolding matches_def spec_matches_def ety st pr dt by blast
qed

lemma cast_build_filter:
  assumes "\<forall>s. supplied (q_minPrice q) = Some s \<longrightarrow> parseFloat s \<noteq> None"
    and "\<forall>s. supplied (q_maxPrice q) = Some s \<longrightarrow> parseFloat s \<noteq> None"
    and "\<forall>s. supplied (q_date q) = Some s \<longrightarrow>
             (\<exists>d. parseDate s = Some (d * 86400000) \<and>
                  \<bar>d * 86400000 + 86400000\<bar> \<le> 8640000000000000)"
  shows "cast_filter (build_filter parseFloat parseDate q)"
proof -
  have pr: "(case f_price (build_filter parseFloat parseDate q) of
        None \<Rightarrow> True
      | Some pc \<Rightarrow> p_gte pc \<noteq> Some None \<and> p_lte pc \<noteq> Some None)"
    using supplied_cases[of "q_minPrice q"] supplied_cases[of "q_maxPrice q"] assms(1,2)
    by (auto simp add: build_filter_def split: option.splits)
  have dt: "(case f_date (build_filter parseFloat parseDate q) of
        None \<Rightarrow> True
      | Some dc \<Rightarrow> d_gte dc \<noteq> None \<and> d_lt dc \<noteq> None)"
  proof (cases "truthy (q_date q)")
    case False
    then show ?thesis by (simp add: build_filter_def)
  next
    case True
    then obtain s where s: "q_date q = Some s" "supplied (q_date q) = Some s"
      using supplied_cases[of "q_date q"] by auto
    with assms(3) obtain d where d: "parseDate s = Some (d * 86400000)"
      "\<bar>d * 86400000 + 86400000\<bar> \<le> 8640000000000000" by blast
    show ?thesis using True s d by (simp add: build_filter_def new_Date_def Let_def)
  qed
  show ?thesis unfolding cast_filter_def using pr dt by blast
qed

lemma empty_filter_matches:
  assumes "\<not> truthy (q_eventType q)" "\<not> truthy (q_status q)" "\<not> truthy (q_minPrice q)"
    "\<not> truthy (q_maxPrice q)" "\<not> truthy (q_date q)"
  shows "matches (build_filter parseFloat parseDate q) t"
  using assms by (simp add: matches_def build_filter_def)

text \<open>
  Claim C9. When the price bounds that are supplied are numbers and the date that is
  supplied names a calendar day (it parses to the start of a UTC day), List answers
  with exactly the stored records that match the filter: the event type and the status
  equal to the supplied ones, the price within the supplied inclusive bounds, the date
  within the supplied day. The answer is in ascending order of date, and with no filter
  supplied it holds every stored record.
\<close>

theorem list_returns_matching_sorted:
  assumes "\<forall>s. supplied (q_minPrice q) = Some s \<longrightarrow> parseFloat s \<noteq> None"
    and "\<forall>s. supplied (q_maxPrice q) = Some s \<longrightarrow> parseFloat s \<noteq> None"
    and "\<forall>s. supplied (q_date q) = Some s \<longrightarrow>
             (\<exists>d. parseDate s = Some (d * 86400000) \<and>
                  \<bar>d * 86400000 + 86400000\<bar> \<le> 8640000000000000)"
  shows "\<exists>r. list_tickets parseFloat parseDate store q = Inr r \<and>
           sorted (map date r) \<and>
           mset r = mset (filter
             (spec_matches (supplied (q_eventType q)) (supplied (q_status q))
               (Option.bind (supplied (q_minPrice q)) parseFloat)
               (Option.bind (supplied (q_maxPrice q)) parseFloat)
               (map_option (\<lambda>n. n div 86400000)
                  (Option.bind (supplied (q_date q)) parseDate))) store) \<and>
           (\<not> truthy (q_eventType q) \<and> \<not> truthy (q_status q) \<and> \<not> truthy (q_minPrice q) \<and>
            \<not> truthy (q_maxPrice q) \<and> \<not> truthy (q_date q) \<longrightarrow> mset r = mset store)"
proof -
  let ?f = "build_filter parseFloat parseDate q"
  let ?r = "sort_key date (filter (matches ?f) store)"
  have r: "list_tickets parseFloat parseDate store q = Inr ?r"
    using cast_build_filter[OF assms] by (simp add: list_tickets_def find_sorted_def)
  have s: "sorted (map date ?r)" by (rule sorted_sort_key)
  have eq: "filter (matches ?f) store = filter
             (spec_matches (supplied (q_eventType q)) (supplied (q_status q))
               (Option.bind (supplied (q_minPrice q)) parseFloat)
               (Option.bind (supplied (q_maxPrice q)) parseFloat)
               (map_option (\<lambda>n. n div 86400000)
                  (Option.bind (supplied (q_date q)) parseDate))) store"
    using matches_build_filter[OF assms(3)] by (intro filter_cong) simp_all
  have m: "mset ?r = mset (filter (matches ?f) store)" by simp
  have all: "mset ?r = mset store"
    if "\<not> truthy (q_eventType q) \<and> \<not> truthy (q_status q) \<and> \<not> truthy (q_minPrice q) \<and>
        \<not> truthy (q_maxPrice q) \<and> \<not> truthy (q_date q)"
  proof -
    have "filter (matches ?f) store = store"
      using that empty_filter_matches[of q parseFloat parseDate] by (simp add: filter_id_conv)
    then show ?thesis by simp
  qed
  show ?thesis using r s m eq all by (intro exI[of _ ?r]) simp
qed

theorem list_returns_matching_sorted_witness:
  "(\<exists>r. list_tickets (\<lambda>s. if s = ''50'' then Some 50 else None)
          (\<lambda>s. if s = ''2024-12-15'' then Some 1734220800000 else None)
          [rockConcert, moviePremiere]
          \<lparr>q_eventType = Some ''concert'', q_status = None, q_minPrice = Some ''50'',
           q_maxPrice = None, q_date = Some ''2024-12-15''\<rparr> = Inr r \<and>
        sorted (map date r) \<and> mset r = mset [rockConcert]) \<and>
   (\<exists>r. list_tickets (\<lambda>s. if s = ''50'' then Some 50 else None)
          (\<lambda>s. if s = ''2024-12-15'' then Some 1734220800000 else None)
          [rockConcert, moviePremiere]
          \<lparr>q_eventType = None, q_status = None, q_minPrice = None,
           q_maxPrice = None, q_date = None\<rparr> = Inr r \<and>
        sorted (map date r) \<and> mset r = mset [rockConcert, moviePremiere])"
proof -
  let ?pf = "\<lambda>s. if s = ''50'' then Some (50::rat) else None"
  let ?pd = "\<lambda>s. if s = ''2024-12-15'' then Some (1734220800000::int) else None"
  let ?q = "\<lparr>q_eventType = Some ''concert'', q_status = None, q_minPrice = Some ''50'',
           q_maxPrice = None, q_date = Some ''2024-12-15''\<rparr>"
  let ?e = "\<lparr>q_eventType = None, q_status = None, q_minPrice = None,
           q_maxPrice = None, q_date = None\<rparr>"
  have day: "(1734220800000::int) = 20072 * 86400000" by simp
  have a1: "\<forall>s. supplied (q_minPrice ?q) = Some s \<longrightarrow> ?pf s \<noteq> None"
    by (simp add: supplied_def truthy_def)
  have a2: "\<forall>s. supplied (q_maxPrice ?q) = Some s \<longrightarrow> ?pf s \<noteq> None"
    by (simp add: supplied_def truthy_def)
  have a3: "\<forall>s. supplied (q_date ?q) = Some s \<longrightarrow>
             (\<exists>d. ?pd s = Some (d * 86400000) \<and>
                  \<bar>d * 86400000 + 86400000\<bar> \<le> 8640000000000000)"
    by (auto simp add: supplied_def truthy_def intro!: exI[of _ 20072])
  have f: "filter (spec_matches (supplied (q_eventType ?q)) (supplied (q_status ?q))
               (Option.bind (supplied (q_minPrice ?q)) ?pf)
               (Option.bind (supplied (q_maxPrice ?q)) ?pf)
               (map_option (\<lambda>n. n div 86400000) (Option.bind (supplied (q_date ?q)) ?pd)))
             [rockConcert, moviePremiere] = [rockConcert]"
    by (simp add: spec_matches_def supplied_def truthy_def rockConcert_def moviePremiere_def)
  have b1: "\<forall>s. supplied (q_minPrice ?e) = Some s \<longrightarrow> ?pf s \<noteq> None"
    by (simp add: supplied_def truthy_def)
  have b2: "\<forall>s. supplied (q_maxPrice ?e) = Some s \<longrightarrow> ?pf s \<noteq> None"
    by (simp add: supplied_def truthy_def)
  have b3: "\<forall>s. supplied (q_date ?e) = Some s \<longrightarrow>
             (\<exists>d. ?pd s = Some (d * 86400000) \<and>
                  \<bar>d * 86400000 + 86400000\<bar> \<le> 8640000000000000)"
    by (simp add: supplied_def truthy_def)
  have none: "\<not> truthy (q_eventType ?e) \<and> \<not> truthy (q_status ?e) \<and> \<not> truthy (q_minPrice ?e) \<and>
            \<not> truthy (q_maxPrice ?e) \<and> \<not> truthy (q_date ?e)"
    by (simp add: truthy_def)
  from list_returns_matching_sorted[of ?q ?pf ?pd "[rockConcert, moviePremiere]", OF a1 a2 a3]
  have first: "\<exists>r. list_tickets ?pf ?pd [rockConcert, moviePremiere] ?q = Inr r \<and>
        sorted (map date r) \<and> mset r = mset [rockConcert]"
    unfolding f by blast
  from list_returns_matching_sorted[of ?e ?pf ?pd "[rockConcert, moviePremiere]", OF b1 b2 b3]
    none
  have second: "\<exists>r. list_tickets ?pf ?pd [rockConcert, moviePremiere] ?e = Inr r \<and>
        sorted (map date r) \<and> mset r = mset [rockConcert, moviePremiere]"
    by blast
  from first second show ?thesis by blast
qed

end
